theory Spec2Isabelle
  imports Main "HOL-Library.Word" "HOL-Library.Log_Nat"
begin

section \<open>The session middleware (middleware/session/session.go)\<close>

text \<open>
  The Go file declares the pooled \<^verbatim>\<open>Session\<close> object and its lifecycle methods.
  Go passes \<^verbatim>\<open>*Session\<close> pointers around and keeps released objects in a
  \<^verbatim>\<open>sync.Pool\<close>, so the objects live in an explicit store (addresses to records)
  and every method takes the address of its receiver. A nil or dangling pointer that the
  source would dereference is the outcome \<open>Panic\<close>; a Go \<^verbatim>\<open>error\<close> result is
  \<open>error option\<close>, with \<open>None\<close> for \<^verbatim>\<open>nil\<close>.
\<close>

subsection \<open>Values of the Go runtime and of the libraries\<close>

datatype error = Error string

datatype 'a outcome = Panic | Return 'a

type_synonym bytes = "8 word list"

text \<open>\<^verbatim>\<open>time.Duration\<close> counts nanoseconds; \<^verbatim>\<open>time.Time\<close> is a number of nanoseconds
  on the same scale. The sums formed here (\<^verbatim>\<open>time.Now().Add(d)\<close> with an int64
  duration) stay far inside the range of \<^verbatim>\<open>time.Time\<close>, so unbounded integers are exact.\<close>

type_synonym Duration = int
type_synonym Time = int

definition Second :: Duration where
  "Second = 1000000000"

definition Minute :: Duration where
  "Minute = 60 * Second"

definition Time_Add :: "Time \<Rightarrow> Duration \<Rightarrow> Time" where
  "Time_Add t d = t + d"

text \<open>
  Go's integer division and remainder round toward zero.
\<close>

definition quo :: "int \<Rightarrow> int \<Rightarrow> int" where
  "quo a b = sgn a * sgn b * (\<bar>a\<bar> div \<bar>b\<bar>)"

definition rem :: "int \<Rightarrow> int \<Rightarrow> int" where
  "rem a b = a - b * quo a b"

text \<open>
  \<^verbatim>\<open>Duration.Seconds\<close> of the Go library computes in float64:
  \<^verbatim>\<open>sec := d / Second; nsec := d % Second; return float64(sec) + float64(nsec)/1e9\<close>.
  A finite float64 is \<open>m * 2 ^ e\<close> with a mantissa of at most 53 bits, kept here as the
  pair \<open>(m, e)\<close>. Every float64 operation returns the exact result rounded to the
  nearest such number, ties to the even mantissa: \<open>float64_round n d\<close> rounds the
  fraction \<open>n / d\<close> (with \<open>d > 0\<close>) by locating its binary exponent and rounding the
  mantissa. The numbers met here are zero or lie between \<^verbatim>\<open>1e-9\<close> and \<^verbatim>\<open>1e10\<close> in
  magnitude, far from the subnormal and overflow ranges, which are not modelled.
  The conversion \<^verbatim>\<open>int(x)\<close> drops the fraction.
\<close>

type_synonym float64 = "int \<times> int"

definition round_half_even :: "int \<Rightarrow> int \<Rightarrow> int" where
  "round_half_even n d =
     (let q = n div d; r = n mod d
      in if 2 * r < d then q else if d < 2 * r then q + 1 else if even q then q else q + 1)"

definition float64_round :: "int \<Rightarrow> int \<Rightarrow> float64" where
  "float64_round n d =
     (if n = 0 then (0, 0)
      else let k = bitlen \<bar>n\<bar> - bitlen d;
               l = (if d * 2 ^ nat k \<le> \<bar>n\<bar> * 2 ^ nat (- k) then k else k - 1);
               e = l - 52
           in (round_half_even (n * 2 ^ nat (- e)) (d * 2 ^ nat e), e))"

definition float64_of_int :: "int \<Rightarrow> float64" where
  "float64_of_int i = float64_round i 1"

definition float64_add :: "float64 \<Rightarrow> float64 \<Rightarrow> float64" where
  "float64_add x y =
     (let e = min (snd x) (snd y);
          n = fst x * 2 ^ nat (snd x - e) + fst y * 2 ^ nat (snd y - e)
      in float64_round (n * 2 ^ nat e) (2 ^ nat (- e)))"

text \<open>Division by a positive float64 (here always \<^verbatim>\<open>1e9\<close>).\<close>

definition float64_div :: "float64 \<Rightarrow> float64 \<Rightarrow> float64" where
  "float64_div x y =
     float64_round (fst x * 2 ^ nat (snd x) * 2 ^ nat (- snd y))
                   (fst y * 2 ^ nat (snd y) * 2 ^ nat (- snd x))"

definition int_of_float64 :: "float64 \<Rightarrow> int" where
  "int_of_float64 x =
     (let n = fst x * 2 ^ nat (snd x); d = 2 ^ nat (- snd x) in sgn n * (\<bar>n\<bar> div d))"

definition Seconds :: "Duration \<Rightarrow> float64" where
  "Seconds d =
     (let sec = quo d Second;
          nsec = rem d Second
      in float64_add (float64_of_int sec)
           (float64_div (float64_of_int nsec) (float64_of_int 1000000000)))"

subsection \<open>The cookie of the HTTP library\<close>

text \<open>
  \<^verbatim>\<open>fasthttp.Cookie\<close> belongs to the transport, an external collaborator. A cookie is
  modelled as the attributes handed to its setters: this is the directive the session
  engine asks the transport to emit. What the library makes of the attributes when it
  writes the header is outside the model. \<^verbatim>\<open>AcquireCookie\<close> returns a cookie with
  every attribute at its zero value (no expiry is \<open>None\<close>).
\<close>

datatype CookieSameSite =
    CookieSameSiteDisabled
  | CookieSameSiteDefaultMode
  | CookieSameSiteLaxMode
  | CookieSameSiteStrictMode
  | CookieSameSiteNoneMode

record Cookie =
  ckey :: string
  cvalue :: string
  cpath :: string
  cdomain :: string
  cmaxAge :: int
  cexpire :: "Time option"
  csecure :: bool
  chttpOnly :: bool
  csameSite :: CookieSameSite

definition AcquireCookie :: Cookie where
  "AcquireCookie =
     \<lparr>ckey = [], cvalue = [], cpath = [], cdomain = [], cmaxAge = 0, cexpire = None,
      csecure = False, chttpOnly = False, csameSite = CookieSameSiteDisabled\<rparr>"

definition SetKey :: "string \<Rightarrow> Cookie \<Rightarrow> Cookie" where
  "SetKey k c = c\<lparr>ckey := k\<rparr>"

definition SetValue :: "string \<Rightarrow> Cookie \<Rightarrow> Cookie" where
  "SetValue v c = c\<lparr>cvalue := v\<rparr>"

definition SetPath :: "string \<Rightarrow> Cookie \<Rightarrow> Cookie" where
  "SetPath v c = c\<lparr>cpath := v\<rparr>"

definition SetDomain :: "string \<Rightarrow> Cookie \<Rightarrow> Cookie" where
  "SetDomain v c = c\<lparr>cdomain := v\<rparr>"

definition SetMaxAge :: "int \<Rightarrow> Cookie \<Rightarrow> Cookie" where
  "SetMaxAge n c = c\<lparr>cmaxAge := n\<rparr>"

definition SetExpire :: "Time \<Rightarrow> Cookie \<Rightarrow> Cookie" where
  "SetExpire t c = c\<lparr>cexpire := Some t\<rparr>"

definition SetSecure :: "bool \<Rightarrow> Cookie \<Rightarrow> Cookie" where
  "SetSecure b c = c\<lparr>csecure := b\<rparr>"

definition SetHTTPOnly :: "bool \<Rightarrow> Cookie \<Rightarrow> Cookie" where
  "SetHTTPOnly b c = c\<lparr>chttpOnly := b\<rparr>"

definition SetSameSite :: "CookieSameSite \<Rightarrow> Cookie \<Rightarrow> Cookie" where
  "SetSameSite m c = c\<lparr>csameSite := m\<rparr>"

text \<open>
  The request context \<^verbatim>\<open>fiber.Ctx\<close> carries the cookies of the inbound request (name
  and value) and the cookies pending on the response. \<^verbatim>\<open>Header.DelCookie\<close> removes
  every entry of that name; \<^verbatim>\<open>Header.SetCookie\<close> overwrites the pending cookie of
  the same name or appends a new one.
\<close>

record Ctx =
  Request_cookies :: "(string \<times> string) list"
  Response_cookies :: "Cookie list"

definition Request_DelCookie :: "string \<Rightarrow> (string \<times> string) list \<Rightarrow> (string \<times> string) list" where
  "Request_DelCookie name cs = filter (\<lambda>kv. fst kv \<noteq> name) cs"

definition Response_DelCookie :: "string \<Rightarrow> Cookie list \<Rightarrow> Cookie list" where
  "Response_DelCookie name cs = filter (\<lambda>c. ckey c \<noteq> name) cs"

fun Response_SetCookie :: "Cookie \<Rightarrow> Cookie list \<Rightarrow> Cookie list" where
  "Response_SetCookie c [] = [c]"
| "Response_SetCookie c (x # xs) =
     (if ckey x = ckey c then c # xs else x # Response_SetCookie c xs)"

subsection \<open>Helpers of the repository that session.go calls\<close>

text \<open>
  Modelled from the spec: \<^verbatim>\<open>utils.ToLower\<close> is not among the sources. The configured
  sameSite value is compared with the names \<^verbatim>\<open>strict\<close> and \<^verbatim>\<open>none\<close> after
  lower-casing, that is ignoring case: \<open>ToLower\<close> maps the bytes \<^verbatim>\<open>A\<close> to \<^verbatim>\<open>Z\<close>
  (65 to 90) to their lower-case letters (32 above) and leaves every other byte alone.
\<close>

definition toLowerByte :: "char \<Rightarrow> char" where
  "toLowerByte c =
     (let n = (of_char c :: nat) in if 65 \<le> n \<and> n \<le> 90 then char_of (n + 32) else c)"

definition ToLower :: "string \<Rightarrow> string" where
  "ToLower b = map toLowerByte b"

text \<open>
  Modelled from the spec: the type \<^verbatim>\<open>db\<close> (db.go) is not among the sources. The spec
  calls it the Key/Value Record: an ordered collection of (key, value) pairs with unique
  keys; \<open>Get\<close> returns the value or nothing, \<open>Set\<close> inserts or overwrites, \<open>Delete\<close>
  is a no-op on a missing key, \<open>Len\<close> counts the keys and \<open>Reset\<close> empties the record.
\<close>

type_synonym 'v db = "(string \<times> 'v) list"

definition db_new :: "'v db" where
  "db_new = []"

definition db_Reset :: "'v db \<Rightarrow> 'v db" where
  "db_Reset d = []"

definition db_Len :: "'v db \<Rightarrow> int" where
  "db_Len d = int (length d)"

definition db_Get :: "'v db \<Rightarrow> string \<Rightarrow> 'v option" where
  "db_Get d k = map_of d k"

fun db_Set :: "'v db \<Rightarrow> string \<Rightarrow> 'v \<Rightarrow> 'v db" where
  "db_Set [] k v = [(k, v)]"
| "db_Set (kv # d) k v = (if fst kv = k then (k, v) # d else kv # db_Set d k v)"

definition db_Delete :: "'v db \<Rightarrow> string \<Rightarrow> 'v db" where
  "db_Delete d k = filter (\<lambda>kv. fst kv \<noteq> k) d"

text \<open>
  One function is a parameter of the model: \<open>MarshalMsg\<close>, the generated encoder of
  \<^verbatim>\<open>db\<close> (not among the sources), which returns the encoded bytes or an error. Every
  property below holds whatever it computes.
\<close>

record 'v extern =
  MarshalMsg :: "'v db \<Rightarrow> error + bytes"

subsection \<open>Store configuration, session objects and the world\<close>

text \<open>
  The \<^verbatim>\<open>Store\<close> (store.go, config.go) is only used through its fields. The storage
  backend is an interface value: its two methods used here act on a backend state of type
  \<open>'st\<close>. The key generator is a Go function that draws on a source of randomness, whose
  state has type \<open>'g\<close>.
\<close>

record 'st Storage =
  Storage_Set :: "string \<Rightarrow> bytes \<Rightarrow> Duration \<Rightarrow> 'st \<Rightarrow> error option \<times> 'st"
  Storage_Delete :: "string \<Rightarrow> 'st \<Rightarrow> error option \<times> 'st"

record ('st, 'g) Store =
  Expiration :: Duration
  Storage :: "'st Storage"
  KeyGenerator :: "'g \<Rightarrow> string \<times> 'g"
  CookieName :: string
  CookieDomain :: string
  CookiePath :: string
  CookieSecure :: bool
  CookieHTTPOnly :: bool
  CookieSameSite :: string

text \<open>The struct \<^verbatim>\<open>Session\<close>. The three pointer fields are \<open>None\<close> when nil; the store
  configuration is immutable, so the pointer to it is modelled by its value.\<close>

record ('v, 'st, 'g) Session =
  ctx :: "nat option"
  config :: "('st, 'g) Store option"
  db :: "'v db option"
  id_s :: string
  fresh :: bool

text \<open>
  The world: the Session objects by address, the next unused address, the content of
  \<^verbatim>\<open>sessionPool\<close>, the request contexts by address, the state of the storage backend
  and of the randomness behind the key generator, and the wall clock.
\<close>

record ('v, 'st, 'g) world =
  sessions :: "nat \<rightharpoonup> ('v, 'st, 'g) Session"
  next_session :: nat
  sessionPool :: "nat list"
  ctxs :: "nat \<rightharpoonup> Ctx"
  backend :: 'st
  entropy :: 'g
  now :: Time

subsection \<open>The object pool\<close>

text \<open>\<^verbatim>\<open>new(Session)\<close>: every field at its zero value.\<close>

definition new_Session :: "('v, 'st, 'g) Session" where
  "new_Session = \<lparr>ctx = None, config = None, db = None, id_s = [], fresh = False\<rparr>"

definition sessionPool_New ::
  "('v, 'st, 'g) world \<Rightarrow> nat \<times> ('v, 'st, 'g) world" where
  "sessionPool_New w =
     (let p = next_session w
      in (p, w\<lparr>sessions := (sessions w)(p \<mapsto> new_Session), next_session := Suc p\<rparr>))"

text \<open>
  \<^verbatim>\<open>sync.Pool.Get\<close> removes an arbitrary pooled item and returns it, or ignores the pool
  and calls \<^verbatim>\<open>New\<close>. The choice is the argument \<open>pick\<close>: \<open>Some i\<close> takes the
  \<open>i\<close>-th pooled pointer when there is one, anything else allocates.
\<close>

definition sessionPool_Get ::
  "nat option \<Rightarrow> ('v, 'st, 'g) world \<Rightarrow> nat \<times> ('v, 'st, 'g) world" where
  "sessionPool_Get pick w =
     (case pick of
        None \<Rightarrow> sessionPool_New w
      | Some i \<Rightarrow>
          if i < length (sessionPool w)
          then (sessionPool w ! i,
                w\<lparr>sessionPool := take i (sessionPool w) @ drop (Suc i) (sessionPool w)\<rparr>)
          else sessionPool_New w)"

definition sessionPool_Put :: "nat \<Rightarrow> ('v, 'st, 'g) world \<Rightarrow> ('v, 'st, 'g) world" where
  "sessionPool_Put p w = w\<lparr>sessionPool := p # sessionPool w\<rparr>"

definition acquireSession ::
  "nat option \<Rightarrow> ('v, 'st, 'g) world \<Rightarrow> nat outcome \<times> ('v, 'st, 'g) world" where
  "acquireSession pick w =
     (let (p, w1) = sessionPool_Get pick w
      in case sessions w1 p of
           None \<Rightarrow> (Panic, w1)
         | Some s \<Rightarrow>
             let s1 = s\<lparr>db := Some db_new\<rparr>;
                 s2 = s1\<lparr>fresh := True\<rparr>
             in (Return p, w1\<lparr>sessions := (sessions w1)(p \<mapsto> s2)\<rparr>))"

definition releaseSession ::
  "nat \<Rightarrow> ('v, 'st, 'g) world \<Rightarrow> unit outcome \<times> ('v, 'st, 'g) world" where
  "releaseSession p w =
     (case sessions w p of
        None \<Rightarrow> (Panic, w)
      | Some s \<Rightarrow>
          let s1 = s\<lparr>ctx := None\<rparr>;
              s2 = s1\<lparr>config := None\<rparr>;
              s3 = (case db s2 of None \<Rightarrow> s2 | Some d \<Rightarrow> s2\<lparr>db := Some (db_Reset d)\<rparr>);
              s4 = s3\<lparr>id_s := []\<rparr>;
              s5 = s4\<lparr>fresh := True\<rparr>
          in (Return (), sessionPool_Put p (w\<lparr>sessions := (sessions w)(p \<mapsto> s5)\<rparr>)))"

subsection \<open>Accessors\<close>

definition Fresh :: "nat \<Rightarrow> ('v, 'st, 'g) world \<Rightarrow> bool outcome" where
  "Fresh p w = (case sessions w p of None \<Rightarrow> Panic | Some s \<Rightarrow> Return (fresh s))"

definition ID :: "nat \<Rightarrow> ('v, 'st, 'g) world \<Rightarrow> string outcome" where
  "ID p w = (case sessions w p of None \<Rightarrow> Panic | Some s \<Rightarrow> Return (id_s s))"

definition Get :: "nat \<Rightarrow> string \<Rightarrow> ('v, 'st, 'g) world \<Rightarrow> 'v option outcome" where
  "Get p k w =
     (case sessions w p of
        None \<Rightarrow> Panic
      | Some s \<Rightarrow> (case db s of None \<Rightarrow> Panic | Some d \<Rightarrow> Return (db_Get d k)))"

definition Set ::
  "nat \<Rightarrow> string \<Rightarrow> 'v \<Rightarrow> ('v, 'st, 'g) world \<Rightarrow> unit outcome \<times> ('v, 'st, 'g) world" where
  "Set p k v w =
     (case sessions w p of
        None \<Rightarrow> (Panic, w)
      | Some s \<Rightarrow>
          (case db s of
             None \<Rightarrow> (Panic, w)
           | Some d \<Rightarrow>
               (Return (), w\<lparr>sessions := (sessions w)(p \<mapsto> s\<lparr>db := Some (db_Set d k v)\<rparr>)\<rparr>)))"

definition Delete ::
  "nat \<Rightarrow> string \<Rightarrow> ('v, 'st, 'g) world \<Rightarrow> unit outcome \<times> ('v, 'st, 'g) world" where
  "Delete p k w =
     (case sessions w p of
        None \<Rightarrow> (Panic, w)
      | Some s \<Rightarrow>
          (case db s of
             None \<Rightarrow> (Panic, w)
           | Some d \<Rightarrow>
               (Return (), w\<lparr>sessions := (sessions w)(p \<mapsto> s\<lparr>db := Some (db_Delete d k)\<rparr>)\<rparr>)))"

subsection \<open>Cookies\<close>

definition setCookie ::
  "nat \<Rightarrow> ('v, 'st, 'g) world \<Rightarrow> unit outcome \<times> ('v, 'st, 'g) world" where
  "setCookie p w =
     (case sessions w p of
        None \<Rightarrow> (Panic, w)
      | Some s \<Rightarrow>
          (case config s of
             None \<Rightarrow> (Panic, w)
           | Some cfg \<Rightarrow>
               let fcookie = AcquireCookie;
                   fcookie = SetKey (CookieName cfg) fcookie;
                   fcookie = SetValue (id_s s) fcookie;
                   fcookie = SetPath (CookiePath cfg) fcookie;
                   fcookie = SetDomain (CookieDomain cfg) fcookie;
                   fcookie = SetMaxAge (int_of_float64 (Seconds (Expiration cfg))) fcookie;
                   fcookie = SetExpire (Time_Add (now w) (Expiration cfg)) fcookie;
                   fcookie = SetSecure (CookieSecure cfg) fcookie;
                   fcookie = SetHTTPOnly (CookieHTTPOnly cfg) fcookie;
                   lower = ToLower (CookieSameSite cfg);
                   fcookie =
                     (if lower = ''strict'' then SetSameSite CookieSameSiteStrictMode fcookie
                      else if lower = ''none'' then SetSameSite CookieSameSiteNoneMode fcookie
                      else SetSameSite CookieSameSiteLaxMode fcookie)
               in (case ctx s of
                     None \<Rightarrow> (Panic, w)
                   | Some c \<Rightarrow>
                       (case ctxs w c of
                          None \<Rightarrow> (Panic, w)
                        | Some cx \<Rightarrow>
                            (Return (),
                             w\<lparr>ctxs := (ctxs w)(c \<mapsto>
                                 cx\<lparr>Response_cookies :=
                                      Response_SetCookie fcookie (Response_cookies cx)\<rparr>)\<rparr>)))))"

definition delCookie ::
  "nat \<Rightarrow> ('v, 'st, 'g) world \<Rightarrow> unit outcome \<times> ('v, 'st, 'g) world" where
  "delCookie p w =
     (case sessions w p of
        None \<Rightarrow> (Panic, w)
      | Some s \<Rightarrow>
          (case ctx s of
             None \<Rightarrow> (Panic, w)
           | Some c \<Rightarrow>
               (case ctxs w c of
                  None \<Rightarrow> (Panic, w)
                | Some cx \<Rightarrow>
                    (case config s of
                       None \<Rightarrow> (Panic, w)
                     | Some cfg \<Rightarrow>
                         let cx1 = cx\<lparr>Request_cookies :=
                                        Request_DelCookie (CookieName cfg) (Request_cookies cx)\<rparr>;
                             cx2 = cx1\<lparr>Response_cookies :=
                                        Response_DelCookie (CookieName cfg) (Response_cookies cx1)\<rparr>;
                             fcookie = AcquireCookie;
                             fcookie = SetKey (CookieName cfg) fcookie;
                             fcookie = SetPath (CookiePath cfg) fcookie;
                             fcookie = SetDomain (CookieDomain cfg) fcookie;
                             fcookie = SetMaxAge (- 1) fcookie;
                             fcookie = SetExpire (Time_Add (now w) (- 1 * Minute)) fcookie;
                             fcookie = SetSecure (CookieSecure cfg) fcookie;
                             fcookie = SetHTTPOnly (CookieHTTPOnly cfg) fcookie;
                             lower = ToLower (CookieSameSite cfg);
                             fcookie =
                               (if lower = ''strict''
                                then SetSameSite CookieSameSiteStrictMode fcookie
                                else if lower = ''none''
                                then SetSameSite CookieSameSiteNoneMode fcookie
                                else SetSameSite CookieSameSiteLaxMode fcookie);
                             cx3 = cx2\<lparr>Response_cookies :=
                                        Response_SetCookie fcookie (Response_cookies cx2)\<rparr>
                         in (Return (), w\<lparr>ctxs := (ctxs w)(c \<mapsto> cx3)\<rparr>)))))"

subsection \<open>Destroy, Regenerate, Save\<close>

definition Destroy ::
  "nat \<Rightarrow> ('v, 'st, 'g) world \<Rightarrow> error option outcome \<times> ('v, 'st, 'g) world" where
  "Destroy p w =
     (case sessions w p of
        None \<Rightarrow> (Panic, w)
      | Some s \<Rightarrow>
          (case db s of
             None \<Rightarrow> (Panic, w)
           | Some d \<Rightarrow>
               let w1 = w\<lparr>sessions := (sessions w)(p \<mapsto> s\<lparr>db := Some (db_Reset d)\<rparr>)\<rparr>
               in (case config s of
                     None \<Rightarrow> (Panic, w1)
                   | Some cfg \<Rightarrow>
                       let (err, st) = Storage_Delete (Storage cfg) (id_s s) (backend w1);
                           w2 = w1\<lparr>backend := st\<rparr>
                       in (case err of
                             Some e \<Rightarrow> (Return (Some e), w2)
                           | None \<Rightarrow>
                               (case delCookie p w2 of
                                  (Panic, w3) \<Rightarrow> (Panic, w3)
                                | (Return u, w3) \<Rightarrow> (Return None, w3))))))"

definition Regenerate ::
  "nat \<Rightarrow> ('v, 'st, 'g) world \<Rightarrow> error option outcome \<times> ('v, 'st, 'g) world" where
  "Regenerate p w =
     (case sessions w p of
        None \<Rightarrow> (Panic, w)
      | Some s \<Rightarrow>
          (case config s of
             None \<Rightarrow> (Panic, w)
           | Some cfg \<Rightarrow>
               let (err, st) = Storage_Delete (Storage cfg) (id_s s) (backend w);
                   w1 = w\<lparr>backend := st\<rparr>
               in (case err of
                     Some e \<Rightarrow> (Return (Some e), w1)
                   | None \<Rightarrow>
                       let (k, g) = KeyGenerator cfg (entropy w1)
                       in (Return None,
                           w1\<lparr>entropy := g, sessions := (sessions w1)(p \<mapsto> s\<lparr>id_s := k\<rparr>)\<rparr>))))"

definition Save ::
  "'v extern \<Rightarrow> nat \<Rightarrow> ('v, 'st, 'g) world \<Rightarrow> error option outcome \<times> ('v, 'st, 'g) world" where
  "Save ext p w =
     (case sessions w p of
        None \<Rightarrow> (Panic, w)
      | Some s \<Rightarrow>
          (case db s of
             None \<Rightarrow> (Panic, w)
           | Some d \<Rightarrow>
               if db_Len d \<le> 0 then (Return None, w)
               else
                 (case MarshalMsg ext d of
                    Inl e \<Rightarrow> (Return (Some e), w)
                  | Inr data \<Rightarrow>
                      (case config s of
                         None \<Rightarrow> (Panic, w)
                       | Some cfg \<Rightarrow>
                           let (err, st) =
                                 Storage_Set (Storage cfg) (id_s s) data (Expiration cfg) (backend w);
                               w1 = w\<lparr>backend := st\<rparr>
                           in (case err of
                                 Some e \<Rightarrow> (Return (Some e), w1)
                               | None \<Rightarrow>
                                   (case setCookie p w1 of
                                      (Panic, w2) \<Rightarrow> (Panic, w2)
                                    | (Return u, w2) \<Rightarrow>
                                        (case releaseSession p w2 of
                                           (Panic, w3) \<Rightarrow> (Panic, w3)
                                         | (Return u', w3) \<Rightarrow> (Return None, w3))))))))"

subsection \<open>The state of a pooled object\<close>

text \<open>Every pointer kept in \<^verbatim>\<open>sessionPool\<close> points to an object without request
  context, store reference and identifier.\<close>

definition pool_released :: "('v, 'st, 'g) world \<Rightarrow> bool" where
  "pool_released w =
     list_all (\<lambda>p. case sessions w p of
                      None \<Rightarrow> False
                    | Some s \<Rightarrow> ctx s = None \<and> config s = None \<and> id_s s = [])
              (sessionPool w)"

subsection \<open>Vocabulary of the properties\<close>

text \<open>
  A configured word matches a lower-case name ignoring case when it has the same length
  and every byte is the letter of the name or its upper-case form (32 below it).
\<close>

definition matches_ignoring_case :: "string \<Rightarrow> string \<Rightarrow> bool" where
  "matches_ignoring_case x y =
     list_all2 (\<lambda>a b. a = b \<or> (of_char a :: nat) + 32 = of_char b) x y"

definition lower_letters :: "string \<Rightarrow> bool" where
  "lower_letters y = list_all (\<lambda>b. 97 \<le> (of_char b :: nat) \<and> (of_char b :: nat) \<le> 122) y"

text \<open>
  A run of the program, as far as this file is concerned, is a sequence of calls of its
  functions on any receivers; \<open>run_calls\<close> performs them in order (a call that panics
  leaves the world as it was at the panic).
\<close>

datatype 'v call =
    Call_Set nat string 'v
  | Call_Delete nat string
  | Call_Destroy nat
  | Call_Regenerate nat
  | Call_Save nat
  | Call_acquireSession "nat option"
  | Call_releaseSession nat

fun call_step :: "'v extern \<Rightarrow> ('v, 'st, 'g) world \<Rightarrow> 'v call \<Rightarrow> ('v, 'st, 'g) world" where
  "call_step ext w (Call_Set p k v) = snd (Set p k v w)"
| "call_step ext w (Call_Delete p k) = snd (Delete p k w)"
| "call_step ext w (Call_Destroy p) = snd (Destroy p w)"
| "call_step ext w (Call_Regenerate p) = snd (Regenerate p w)"
| "call_step ext w (Call_Save p) = snd (Save ext p w)"
| "call_step ext w (Call_acquireSession pick) = snd (acquireSession pick w)"
| "call_step ext w (Call_releaseSession p) = snd (releaseSession p w)"

definition run_calls ::
  "'v extern \<Rightarrow> 'v call list \<Rightarrow> ('v, 'st, 'g) world \<Rightarrow> ('v, 'st, 'g) world" where
  "run_calls ext cs w = foldl (call_step ext) w cs"

subsection \<open>A concrete store, backend and request\<close>

text \<open>
  The examples below run the methods on concrete data: values are natural numbers, the
  encoder rejects the value \<open>0\<close>, the backend is an in-memory list of entries (or one
  whose every call fails), and the key generator counts.
\<close>

definition example_extern :: "nat extern" where
  "example_extern =
     \<lparr>MarshalMsg = (\<lambda>d. if list_ex (\<lambda>kv. snd kv = 0) d
                         then Inl (Error ''unsupported value'')
                         else Inr (map (\<lambda>kv. of_nat (snd kv)) d))\<rparr>"

definition memory_Storage :: "(string \<times> bytes) list Storage" where
  "memory_Storage =
     \<lparr>Storage_Set = (\<lambda>k v ttl st. (None, (k, v) # filter (\<lambda>kv. fst kv \<noteq> k) st)),
      Storage_Delete = (\<lambda>k st. (None, filter (\<lambda>kv. fst kv \<noteq> k) st))\<rparr>"

definition failing_Storage :: "(string \<times> bytes) list Storage" where
  "failing_Storage =
     \<lparr>Storage_Set = (\<lambda>k v ttl st. (Some (Error ''set failed''), st)),
      Storage_Delete = (\<lambda>k st. (Some (Error ''delete failed''), st))\<rparr>"

definition counting_KeyGenerator :: "nat \<Rightarrow> string \<times> nat" where
  "counting_KeyGenerator n = (''key-'' @ replicate n (CHR ''x''), Suc n)"

definition example_Store :: "((string \<times> bytes) list, nat) Store" where
  "example_Store =
     \<lparr>Expiration = 86400 * Second, Storage = memory_Storage,
      KeyGenerator = counting_KeyGenerator, CookieName = ''session_id'', CookieDomain = ''example.org'',
      CookiePath = ''/app'', CookieSecure = True, CookieHTTPOnly = True,
      CookieSameSite = ''Strict''\<rparr>"

definition example_Session :: "(nat, (string \<times> bytes) list, nat) Session" where
  "example_Session =
     \<lparr>ctx = Some 0, config = Some example_Store, db = Some [(''user'', 7)], id_s = ''abc'',
      fresh = True\<rparr>"

definition stale_Cookie :: Cookie where
  "stale_Cookie =
     \<lparr>ckey = ''session_id'', cvalue = ''old'', cpath = ''/'', cdomain = [], cmaxAge = 10,
      cexpire = None, csecure = False, chttpOnly = False, csameSite = CookieSameSiteLaxMode\<rparr>"

definition other_Cookie :: Cookie where
  "other_Cookie =
     \<lparr>ckey = ''lang'', cvalue = ''en'', cpath = ''/'', cdomain = [], cmaxAge = 0,
      cexpire = None, csecure = False, chttpOnly = False, csameSite = CookieSameSiteDisabled\<rparr>"

definition example_Ctx :: Ctx where
  "example_Ctx =
     \<lparr>Request_cookies = [(''session_id'', ''abc''), (''lang'', ''en'')],
      Response_cookies = [stale_Cookie, other_Cookie]\<rparr>"

definition example_world :: "(nat, (string \<times> bytes) list, nat) world" where
  "example_world =
     \<lparr>sessions = [0 \<mapsto> example_Session], next_session = 1, sessionPool = [],
      ctxs = [0 \<mapsto> example_Ctx], backend = [(''abc'', [1])], entropy = 2,
      now = 1000 * Second\<rparr>"

text \<open>The same world with another object at address 0: one whose record is empty, one
  whose record holds a value the encoder rejects, one whose store has the failing backend.\<close>

definition world_with ::
  "(nat, (string \<times> bytes) list, nat) Session \<Rightarrow> (nat, (string \<times> bytes) list, nat) world" where
  "world_with s = example_world\<lparr>sessions := [0 \<mapsto> s]\<rparr>"

definition empty_Session :: "(nat, (string \<times> bytes) list, nat) Session" where
  "empty_Session = example_Session\<lparr>db := Some []\<rparr>"

definition unencodable_Session :: "(nat, (string \<times> bytes) list, nat) Session" where
  "unencodable_Session = example_Session\<lparr>db := Some [(''user'', 0)]\<rparr>"

definition offline_Session :: "(nat, (string \<times> bytes) list, nat) Session" where
  "offline_Session = example_Session\<lparr>config := Some (example_Store\<lparr>Storage := failing_Storage\<rparr>)\<rparr>"

text \<open>The example object under a store with another expiration.\<close>

definition session_expiring :: "Duration \<Rightarrow> (nat, (string \<times> bytes) list, nat) Session" where
  "session_expiring d = example_Session\<lparr>config := Some (example_Store\<lparr>Expiration := d\<rparr>)\<rparr>"

text \<open>The example object under a store with another configured sameSite value.\<close>

definition session_sameSite :: "string \<Rightarrow> (nat, (string \<times> bytes) list, nat) Session" where
  "session_sameSite x = example_Session\<lparr>config := Some (example_Store\<lparr>CookieSameSite := x\<rparr>)\<rparr>"

section \<open>Properties of the lifecycle methods\<close>

lemmas example_defs =
  example_world_def world_with_def example_Session_def empty_Session_def unencodable_Session_def
  offline_Session_def example_Store_def memory_Storage_def failing_Storage_def
  counting_KeyGenerator_def example_extern_def example_Ctx_def stale_Cookie_def other_Cookie_def

lemmas cookie_setters =
  AcquireCookie_def SetKey_def SetValue_def SetPath_def SetDomain_def SetMaxAge_def
  SetExpire_def SetSecure_def SetHTTPOnly_def SetSameSite_def

lemma ToLower_Strict: "ToLower ''Strict'' = ''strict''"
  by code_simp

lemma ToLower_examples:
  "ToLower ''STRICT'' = ''strict''" "ToLower ''NoNe'' = ''none''" "ToLower ''none'' = ''none''"
  "ToLower ''Lax'' = ''lax''" "ToLower ''bogus'' = ''bogus''" "ToLower [] = []"
  by code_simp+

text \<open>Lower-casing a word gives a lower-case name exactly when the word matches the name
  ignoring case.\<close>

lemma toLowerByte_eq_iff:
  assumes "97 \<le> (of_char b :: nat)" and "(of_char b :: nat) \<le> 122"
  shows "toLowerByte a = b \<longleftrightarrow> a = b \<or> (of_char a :: nat) + 32 = of_char b"
proof -
  have lt: "(of_char a :: nat) < 256"
    by (rule nat_of_char_less_256)
  show ?thesis
  proof (cases "65 \<le> (of_char a :: nat) \<and> (of_char a :: nat) \<le> 90")
    case True
    then have "toLowerByte a = char_of ((of_char a :: nat) + 32)"
      by (simp add: toLowerByte_def Let_def)
    moreover have "char_of ((of_char a :: nat) + 32) = b \<longleftrightarrow> (of_char a :: nat) + 32 = of_char b"
      using True by (auto simp: char_of_eq_iff take_bit_eq_mod)
    moreover have "a \<noteq> b"
      using True assms by auto
    ultimately show ?thesis
      by simp
  next
    case False
    then have "toLowerByte a = a"
      by (auto simp: toLowerByte_def Let_def)
    moreover have "(of_char a :: nat) + 32 \<noteq> of_char b"
      using False assms by auto
    ultimately show ?thesis
      by simp
  qed
qed

lemma ToLower_eq_iff:
  "lower_letters y \<Longrightarrow> ToLower x = y \<longleftrightarrow> matches_ignoring_case x y"
proof (induction x arbitrary: y)
  case Nil
  then show ?case
    by (auto simp: ToLower_def matches_ignoring_case_def)
next
  case (Cons a x)
  show ?case
  proof (cases y)
    case Nil
    then show ?thesis
      by (simp add: ToLower_def matches_ignoring_case_def)
  next
    case (Cons b y')
    with Cons.prems have b: "97 \<le> (of_char b :: nat)" "(of_char b :: nat) \<le> 122"
      and y': "lower_letters y'"
      by (simp_all add: lower_letters_def)
    from Cons.IH [OF y'] toLowerByte_eq_iff [OF b, of a] Cons show ?thesis
      by (simp add: ToLower_def matches_ignoring_case_def)
  qed
qed

lemma lower_letters_strict_none: "lower_letters ''strict''" "lower_letters ''none''"
  by (simp_all add: lower_letters_def)

text \<open>The conversion of a duration to seconds: exact on every whole number of seconds
  (below \<open>2 ^ 53\<close>, so on every int64 duration), rounded up to the next second on the
  second example.\<close>

lemma round_half_even_exact: "0 < d \<Longrightarrow> round_half_even (q * d) d = q"
  by (simp add: round_half_even_def)

lemma float64_round_exact:
  assumes "n \<noteq> 0" and "\<bar>n\<bar> < 2 ^ 53"
  shows "float64_round (n * 2 ^ c) (2 ^ c)
           = (n * 2 ^ nat (53 - bitlen \<bar>n\<bar>), bitlen \<bar>n\<bar> - 53)"
proof -
  let ?b = "bitlen \<bar>n\<bar>"
  have pos: "0 < \<bar>n\<bar>"
    using assms(1) by simp
  have b53: "?b \<le> 53"
    using assms(2) by (simp add: bitlen_le_iff_power)
  have b1: "1 \<le> ?b"
    using pos bitlen_eq_zero_iff [of "\<bar>n\<bar>"] bitlen_nonneg [of "\<bar>n\<bar>"] by linarith
  have lo: "2 ^ nat (?b - 1) \<le> \<bar>n\<bar>"
    using bitlen_bounds [OF pos] by simp
  have bl1: "bitlen (\<bar>n\<bar> * 2 ^ c) = ?b + int c"
    using pos by simp
  have bl2: "bitlen (2 ^ c) = 1 + int c"
    using bitlen_twopow_add_eq [of 0 c] by simp
  have k: "bitlen \<bar>n * 2 ^ c\<bar> - bitlen (2 ^ c) = ?b - 1"
    using bl1 bl2 by (simp add: abs_mult)
  have test: "(2::int) ^ c * 2 ^ nat (?b - 1) \<le> \<bar>n * 2 ^ c\<bar> * 2 ^ nat (- (?b - 1))"
    using lo b1 by (simp add: abs_mult)
  have e: "nat (- (?b - 1 - 52)) = nat (53 - ?b)" "nat (?b - 1 - 52) = 0"
    using b53 by simp_all
  have m: "round_half_even (n * 2 ^ c * 2 ^ nat (53 - ?b)) (2 ^ c) = n * 2 ^ nat (53 - ?b)"
    using round_half_even_exact [of "2 ^ c" "n * 2 ^ nat (53 - ?b)"]
    by (simp add: mult.assoc mult.left_commute mult.commute)
  from assms(1) k test e m show ?thesis
    by (simp add: float64_round_def Let_def)
qed

lemma float64_of_int_zero: "float64_of_int 0 = (0, 0)"
  by (simp add: float64_of_int_def float64_round_def)

lemma float64_div_zero: "float64_div (0, 0) y = (0, 0)"
  by (simp add: float64_div_def float64_round_def)

lemma quo_whole: "quo (n * Second) Second = n"
proof -
  have "\<bar>n * Second\<bar> div \<bar>Second\<bar> = \<bar>n\<bar>"
    by (simp add: Second_def abs_mult)
  moreover have "sgn (n * Second) * sgn Second = sgn n"
    by (simp add: Second_def sgn_mult)
  ultimately have "quo (n * Second) Second = sgn n * \<bar>n\<bar>"
    by (simp add: quo_def)
  then show ?thesis
    by (simp add: mult_sgn_abs)
qed

lemma int_of_float64_exact: "int_of_float64 (n * 2 ^ j, - int j) = n"
proof -
  have "\<bar>n * 2 ^ j\<bar> div 2 ^ j = \<bar>n\<bar>"
    by (simp add: abs_mult)
  moreover have "sgn (n * 2 ^ j) = sgn n"
    by (simp add: sgn_mult)
  ultimately have "int_of_float64 (n * 2 ^ j, - int j) = sgn n * \<bar>n\<bar>"
    by (simp add: int_of_float64_def)
  then show ?thesis
    by (simp add: mult_sgn_abs)
qed

lemma Seconds_whole:
  assumes "\<bar>n\<bar> < 2 ^ 53"
  shows "int_of_float64 (Seconds (n * Second)) = n"
proof -
  have q: "quo (n * Second) Second = n"
    by (rule quo_whole)
  then have r: "rem (n * Second) Second = 0"
    by (simp add: rem_def)
  have S: "Seconds (n * Second) = float64_add (float64_of_int n) (0, 0)"
    by (simp only: Seconds_def Let_def q r float64_of_int_zero float64_div_zero)
  show ?thesis
  proof (cases "n = 0")
    case True
    have "float64_add (0, 0) (0, 0) = (0, 0)"
      by (simp add: float64_add_def float64_round_def)
    with True S show ?thesis
      by (simp add: float64_of_int_zero int_of_float64_def)
  next
    case False
    let ?j = "nat (53 - bitlen \<bar>n\<bar>)"
    have b53: "bitlen \<bar>n\<bar> \<le> 53"
      using assms by (simp add: bitlen_le_iff_power)
    then have e: "bitlen \<bar>n\<bar> - 53 = - int ?j"
      by simp
    have a: "float64_of_int n = (n * 2 ^ ?j, - int ?j)"
      using float64_round_exact [OF False assms, of 0] unfolding e
      by (simp add: float64_of_int_def)
    have "float64_add (n * 2 ^ ?j, - int ?j) (0, 0) = float64_round (n * 2 ^ ?j) (2 ^ ?j)"
      by (simp add: float64_add_def Let_def)
    also have "\<dots> = (n * 2 ^ ?j, - int ?j)"
      using float64_round_exact [OF False assms, of ?j] unfolding e .
    finally have s: "float64_add (n * 2 ^ ?j, - int ?j) (0, 0) = (n * 2 ^ ?j, - int ?j)" .
    from S a s show ?thesis
      by (simp only: int_of_float64_exact)
  qed
qed

lemma Seconds_whole_int64:
  assumes "d mod Second = 0" and "- (2 ^ 63) \<le> d" and "d < 2 ^ 63"
  shows "int_of_float64 (Seconds d) = d div Second"
proof -
  from assms(1) have d: "d = (d div Second) * Second"
    using div_mult_mod_eq [of d Second] by simp
  have "\<bar>d div Second\<bar> < 2 ^ 53"
    using assms(2,3) by (simp add: Second_def)
  from Seconds_whole [OF this] d show ?thesis
    by simp
qed

lemma Seconds_day: "int_of_float64 (Seconds 86400000000000) = 86400"
  by code_simp

lemma Seconds_rounds_up: "int_of_float64 (Seconds 16777216999999999) = 16777217"
  by code_simp

lemma Response_SetCookie_mem: "c \<in> set (Response_SetCookie c cs)"
  by (induction cs) auto

lemma Response_SetCookie_append:
  "\<forall>x \<in> set cs. ckey x \<noteq> ckey c \<Longrightarrow> Response_SetCookie c cs = cs @ [c]"
  by (induction cs) auto

lemma Response_SetCookie_after_Del:
  "ckey c = name \<Longrightarrow>
     Response_SetCookie c (Response_DelCookie name cs) = filter (\<lambda>x. ckey x \<noteq> name) cs @ [c]"
  by (simp add: Response_DelCookie_def Response_SetCookie_append)

text \<open>The example session saved: the backend holds the encoded record under the
  identifier, the pending cookie of the same name is replaced by the new one, and the
  object is back in the pool.\<close>

lemma Save_example:
  "Save example_extern 0 example_world =
     (Return None,
      example_world
        \<lparr>sessions := [0 \<mapsto> \<lparr>ctx = None, config = None, db = Some [], id_s = [], fresh = True\<rparr>],
         sessionPool := [0],
         ctxs := [0 \<mapsto> \<lparr>Request_cookies = [(''session_id'', ''abc''), (''lang'', ''en'')],
                         Response_cookies =
                           [\<lparr>ckey = ''session_id'', cvalue = ''abc'', cpath = ''/app'',
                             cdomain = ''example.org'', cmaxAge = 86400,
                             cexpire = Some 87400000000000, csecure = True, chttpOnly = True,
                             csameSite = CookieSameSiteStrictMode\<rparr>, other_Cookie]\<rparr>],
         backend := [(''abc'', [7])]\<rparr>)"
  by (simp add: Save_def setCookie_def releaseSession_def sessionPool_Put_def example_defs
      db_Len_def db_Reset_def ToLower_Strict Second_def Time_Add_def cookie_setters Seconds_day)

text \<open>The cookie functions in closed form, for an object with store reference and
  request context.\<close>

lemma delCookie_result:
  assumes "sessions w p = Some s" and "config s = Some cfg"
    and "ctx s = Some c" and "ctxs w c = Some cx"
  shows "delCookie p w =
     (Return (),
      w\<lparr>ctxs := (ctxs w)(c \<mapsto>
          \<lparr>Request_cookies = filter (\<lambda>kv. fst kv \<noteq> CookieName cfg) (Request_cookies cx),
           Response_cookies =
             filter (\<lambda>k. ckey k \<noteq> CookieName cfg) (Response_cookies cx) @
             [\<lparr>ckey = CookieName cfg, cvalue = [], cpath = CookiePath cfg,
               cdomain = CookieDomain cfg, cmaxAge = - 1,
               cexpire = Some (now w - 60000000000),
               csecure = CookieSecure cfg, chttpOnly = CookieHTTPOnly cfg,
               csameSite =
                 (if ToLower (CookieSameSite cfg) = ''strict'' then CookieSameSiteStrictMode
                  else if ToLower (CookieSameSite cfg) = ''none'' then CookieSameSiteNoneMode
                  else CookieSameSiteLaxMode)\<rparr>]\<rparr>)\<rparr>)"
  using assms
  by (cases cx)
     (simp add: delCookie_def Let_def cookie_setters Response_SetCookie_after_Del
        Request_DelCookie_def Time_Add_def Minute_def Second_def)

lemma setCookie_result:
  assumes "sessions w p = Some s" and "config s = Some cfg"
    and "ctx s = Some c" and "ctxs w c = Some cx"
  shows "setCookie p w =
     (Return (),
      w\<lparr>ctxs := (ctxs w)(c \<mapsto>
          cx\<lparr>Response_cookies :=
               Response_SetCookie
                 \<lparr>ckey = CookieName cfg, cvalue = id_s s, cpath = CookiePath cfg,
                  cdomain = CookieDomain cfg, cmaxAge = int_of_float64 (Seconds (Expiration cfg)),
                  cexpire = Some (now w + Expiration cfg),
                  csecure = CookieSecure cfg, chttpOnly = CookieHTTPOnly cfg,
                  csameSite =
                    (if ToLower (CookieSameSite cfg) = ''strict'' then CookieSameSiteStrictMode
                     else if ToLower (CookieSameSite cfg) = ''none'' then CookieSameSiteNoneMode
                     else CookieSameSiteLaxMode)\<rparr>
                 (Response_cookies cx)\<rparr>)\<rparr>)"
  using assms
  by (simp add: setCookie_def Let_def cookie_setters Time_Add_def)

lemma Destroy_example:
  "Destroy 0 example_world =
     (Return None,
      example_world
        \<lparr>sessions := [0 \<mapsto> example_Session\<lparr>db := Some []\<rparr>],
         backend := [],
         ctxs := [0 \<mapsto> \<lparr>Request_cookies = [(''lang'', ''en'')],
                         Response_cookies =
                           [other_Cookie,
                            \<lparr>ckey = ''session_id'', cvalue = [], cpath = ''/app'',
                             cdomain = ''example.org'', cmaxAge = - 1,
                             cexpire = Some 940000000000, csecure = True, chttpOnly = True,
                             csameSite = CookieSameSiteStrictMode\<rparr>]\<rparr>]\<rparr>)"
  by (simp add: Destroy_def delCookie_def example_defs db_Reset_def ToLower_Strict Second_def
      Minute_def Time_Add_def cookie_setters Request_DelCookie_def Response_DelCookie_def)

text \<open>Pooled objects stay without context, store reference and identifier under every
  operation of the file, and an object taken from such a pool is clean.\<close>

lemma pool_released_iff:
  "pool_released w \<longleftrightarrow>
     (\<forall>p \<in> set (sessionPool w). \<exists>s. sessions w p = Some s
        \<and> ctx s = None \<and> config s = None \<and> id_s s = [])"
  by (auto simp: pool_released_def list_all_iff split: option.splits)

lemma acquireSession_clean:
  assumes "pool_released v"
  shows "\<exists>q v' s'. acquireSession pick v = (Return q, v') \<and> sessions v' q = Some s'
           \<and> db s' = Some [] \<and> fresh s' \<and> id_s s' = [] \<and> config s' = None \<and> ctx s' = None"
proof (cases "\<exists>i. pick = Some i \<and> i < length (sessionPool v)")
  case True
  then obtain i where i: "pick = Some i" "i < length (sessionPool v)"
    by blast
  then have "sessionPool v ! i \<in> set (sessionPool v)"
    by simp
  with assms obtain s where "sessions v (sessionPool v ! i) = Some s"
    "ctx s = None" "config s = None" "id_s s = []"
    by (auto simp: pool_released_iff)
  with i show ?thesis
    by (simp add: acquireSession_def sessionPool_Get_def db_new_def)
next
  case False
  then have "sessionPool_Get pick v = sessionPool_New v"
    by (auto simp: sessionPool_Get_def split: option.splits)
  then show ?thesis
    by (simp add: acquireSession_def sessionPool_New_def new_Session_def db_new_def Let_def)
qed

lemma pool_released_releaseSession:
  "pool_released w \<Longrightarrow> pool_released (snd (releaseSession p w))"
  by (auto simp: pool_released_iff releaseSession_def sessionPool_Put_def Let_def
      split: option.splits)

lemma pool_released_acquireSession:
  assumes "pool_released w"
  shows "pool_released (snd (acquireSession pick w))"
proof (cases "\<exists>i. pick = Some i \<and> i < length (sessionPool w)")
  case True
  then obtain i where i: "pick = Some i" "i < length (sessionPool w)"
    by blast
  then have "sessionPool w ! i \<in> set (sessionPool w)"
    by simp
  with assms obtain s where s: "sessions w (sessionPool w ! i) = Some s"
    "ctx s = None" "config s = None" "id_s s = []"
    by (auto simp: pool_released_iff)
  have "set (take i (sessionPool w) @ drop (Suc i) (sessionPool w)) \<subseteq> set (sessionPool w)"
    by (auto dest: in_set_takeD in_set_dropD)
  with assms i s show ?thesis
    by (auto simp: pool_released_iff acquireSession_def sessionPool_Get_def)
next
  case False
  then have "sessionPool_Get pick w = sessionPool_New w"
    by (auto simp: sessionPool_Get_def split: option.splits)
  with assms show ?thesis
    by (auto simp: pool_released_iff acquireSession_def sessionPool_New_def new_Session_def Let_def)
qed

lemma pool_released_Set:
  "pool_released w \<Longrightarrow> pool_released (snd (Set p k v w))"
  by (auto simp: pool_released_iff Set_def split: option.splits)

lemma pool_released_Delete:
  "pool_released w \<Longrightarrow> pool_released (snd (Delete p k w))"
  by (auto simp: pool_released_iff Delete_def split: option.splits)

lemma pool_released_Regenerate:
  "pool_released w \<Longrightarrow> pool_released (snd (Regenerate p w))"
  by (auto simp: pool_released_iff Regenerate_def Let_def split: option.splits prod.splits)

lemma pool_released_Destroy:
  "pool_released w \<Longrightarrow> pool_released (snd (Destroy p w))"
  by (auto simp: pool_released_iff Destroy_def delCookie_def Let_def
      split: option.splits prod.splits outcome.splits)

lemma pool_released_Save:
  "pool_released w \<Longrightarrow> pool_released (snd (Save ext p w))"
  by (auto simp: pool_released_iff Save_def setCookie_def releaseSession_def sessionPool_Put_def
      Let_def split: option.splits prod.splits outcome.splits sum.splits)

lemma pool_released_call_step:
  "pool_released w \<Longrightarrow> pool_released (call_step ext w c)"
  by (cases c)
     (simp_all add: pool_released_Set pool_released_Delete pool_released_Destroy
        pool_released_Regenerate pool_released_Save pool_released_acquireSession
        pool_released_releaseSession)

lemma pool_released_run_calls:
  "pool_released w \<Longrightarrow> pool_released (run_calls ext cs w)"
  unfolding run_calls_def
  by (induction cs arbitrary: w) (simp_all add: pool_released_call_step)

text \<open>An object whose freshness flag is true keeps a true flag under every call.\<close>

lemma fresh_kept_call_step:
  assumes "sessions w q = Some t" and "fresh t"
  shows "\<exists>t'. sessions (call_step ext w c) q = Some t' \<and> fresh t'"
proof (cases c)
  case (Call_Set p k v)
  with assms show ?thesis
    by (auto simp: Set_def split: option.splits)
next
  case (Call_Delete p k)
  with assms show ?thesis
    by (auto simp: Delete_def split: option.splits)
next
  case (Call_Destroy p)
  with assms show ?thesis
    by (auto simp: Destroy_def delCookie_def Let_def
        split: option.splits prod.splits outcome.splits)
next
  case (Call_Regenerate p)
  with assms show ?thesis
    by (auto simp: Regenerate_def Let_def split: option.splits prod.splits)
next
  case (Call_Save p)
  with assms show ?thesis
    by (auto simp: Save_def setCookie_def releaseSession_def sessionPool_Put_def Let_def
        split: option.splits prod.splits outcome.splits sum.splits)
next
  case (Call_acquireSession pick)
  with assms show ?thesis
    by (auto simp: acquireSession_def sessionPool_Get_def sessionPool_New_def Let_def
        split: option.splits prod.splits if_splits)
next
  case (Call_releaseSession p)
  with assms show ?thesis
    by (auto simp: releaseSession_def sessionPool_Put_def Let_def split: option.splits)
qed

lemma fresh_kept_run_calls:
  "sessions w q = Some t \<Longrightarrow> fresh t \<Longrightarrow>
     \<exists>t'. sessions (run_calls ext cs w) q = Some t' \<and> fresh t'"
  unfolding run_calls_def
proof (induction cs arbitrary: w t)
  case Nil
  then show ?case by simp
next
  case (Cons c cs)
  from fresh_kept_call_step [OF Cons.prems, of ext c]
  obtain t' where "sessions (call_step ext w c) q = Some t'" "fresh t'"
    by blast
  from Cons.IH [OF this] show ?case
    by simp
qed

subsection \<open>Save on an empty record\<close>

text \<open>
  C1. When the record of a session object is empty (\<open>Len() == 0\<close>), \<open>Save\<close> returns
  nil and leaves the whole world as it was: nothing is written to the storage backend and
  no cookie is added to the response.
\<close>

theorem Save_empty_is_noop:
  assumes "sessions w p = Some s" and "db s = Some d" and "db_Len d = 0"
  shows "Save ext p w = (Return None, w)"
  using assms by (simp add: Save_def)

theorem Save_empty_is_noop_witness:
  "sessions (world_with empty_Session) 0 = Some empty_Session
   \<and> db empty_Session = Some []
   \<and> db_Len ([] :: nat db) = 0
   \<and> Save example_extern 0 (world_with empty_Session) = (Return None, world_with empty_Session)"
proof -
  have a: "sessions (world_with empty_Session) 0 = Some empty_Session"
    by (simp add: world_with_def)
  have b: "db empty_Session = Some []"
    by (simp add: empty_Session_def)
  have c: "db_Len ([] :: nat db) = 0"
    by (simp add: db_Len_def)
  from Save_empty_is_noop [OF a b c] a b c show ?thesis
    by simp
qed

subsection \<open>A failing Save\<close>

text \<open>
  C2. On a non-empty record, when the encoder fails, \<open>Save\<close> returns its error and the
  world is unchanged; when the backend \<open>Set\<close> fails, \<open>Save\<close> returns that error and
  only the backend state is what the backend left. Whenever \<open>Save\<close> returns an error,
  the session objects (identifier, record, freshness flag, store reference), the pool and
  the request contexts (so the response cookies) are as before: the object is not released
  and no cookie is issued.
\<close>

theorem Save_failure_keeps_session:
  assumes "sessions w p = Some s" and "db s = Some d" and "0 < db_Len d"
  shows "(MarshalMsg ext d = Inl e \<longrightarrow> Save ext p w = (Return (Some e), w))
       \<and> (MarshalMsg ext d = Inr data \<and> config s = Some cfg
            \<and> Storage_Set (Storage cfg) (id_s s) data (Expiration cfg) (backend w) = (Some e, st)
          \<longrightarrow> Save ext p w = (Return (Some e), w\<lparr>backend := st\<rparr>))
       \<and> (\<forall>e' w'. Save ext p w = (Return (Some e'), w')
          \<longrightarrow> sessions w' = sessions w \<and> sessionPool w' = sessionPool w \<and> ctxs w' = ctxs w)"
  using assms
  by (auto simp: Save_def Let_def split: sum.splits option.splits prod.splits outcome.splits)

theorem Save_failure_keeps_session_witness:
  "Save example_extern 0 (world_with unencodable_Session)
     = (Return (Some (Error ''unsupported value'')), world_with unencodable_Session)
   \<and> Save example_extern 0 (world_with offline_Session)
     = (Return (Some (Error ''set failed'')), world_with offline_Session)
   \<and> sessions (snd (Save example_extern 0 (world_with offline_Session))) 0 = Some offline_Session
   \<and> sessionPool (snd (Save example_extern 0 (world_with offline_Session))) = []
   \<and> ctxs (snd (Save example_extern 0 (world_with offline_Session))) 0 = Some example_Ctx"
proof -
  have a: "sessions (world_with unencodable_Session) 0 = Some unencodable_Session"
    by (simp add: world_with_def)
  have b: "db unencodable_Session = Some [(''user'', 0)]"
    by (simp add: unencodable_Session_def example_Session_def)
  have c: "0 < db_Len [(''user'', 0 :: nat)]"
    by (simp add: db_Len_def)
  have m: "MarshalMsg example_extern [(''user'', 0)] = Inl (Error ''unsupported value'')"
    by (simp add: example_extern_def)
  have a': "sessions (world_with offline_Session) 0 = Some offline_Session"
    by (simp add: world_with_def)
  have b': "db offline_Session = Some [(''user'', 7)]"
    by (simp add: offline_Session_def example_Session_def)
  have c': "0 < db_Len [(''user'', 7 :: nat)]"
    by (simp add: db_Len_def)
  have m': "MarshalMsg example_extern [(''user'', 7)] = Inr [7]"
    by (simp add: example_extern_def)
  have f': "config offline_Session = Some (example_Store\<lparr>Storage := failing_Storage\<rparr>)"
    by (simp add: offline_Session_def example_Session_def)
  have s': "Storage_Set (Storage (example_Store\<lparr>Storage := failing_Storage\<rparr>))
              (id_s offline_Session) [7] (Expiration (example_Store\<lparr>Storage := failing_Storage\<rparr>))
              (backend (world_with offline_Session))
            = (Some (Error ''set failed''), backend (world_with offline_Session))"
    by (simp add: failing_Storage_def)
  from Save_failure_keeps_session [OF a b c, where ext = example_extern
        and e = "Error ''unsupported value''"] m
  have 1: "Save example_extern 0 (world_with unencodable_Session)
             = (Return (Some (Error ''unsupported value'')), world_with unencodable_Session)"
    by blast
  from Save_failure_keeps_session [OF a' b' c', where ext = example_extern and data = "[7]"
        and cfg = "example_Store\<lparr>Storage := failing_Storage\<rparr>" and e = "Error ''set failed''"
        and st = "backend (world_with offline_Session)"] m' f' s'
  have 2: "Save example_extern 0 (world_with offline_Session)
             = (Return (Some (Error ''set failed'')), world_with offline_Session)"
    by simp
  from 1 2 a' show ?thesis
    by (simp add: world_with_def example_world_def)
qed

subsection \<open>A successful Save\<close>

text \<open>
  C3, as the specification states it: whenever \<open>Save\<close> returns nil the object has been
  released. This fails on an empty record: \<open>Save\<close> returns nil at its first test, and the object keeps its
  identifier, its store reference and its request context and is not in the pool.
\<close>

theorem Save_nil_without_release_counterexample:
  "fst (Save example_extern 0 (world_with empty_Session)) = Return None
   \<and> sessions (snd (Save example_extern 0 (world_with empty_Session))) 0 = Some empty_Session
   \<and> id_s empty_Session = ''abc''
   \<and> config empty_Session = Some example_Store
   \<and> ctx empty_Session = Some 0
   \<and> sessionPool (snd (Save example_extern 0 (world_with empty_Session))) = []"
  by (simp add: Save_def db_Len_def world_with_def empty_Session_def example_Session_def
      example_world_def)

text \<open>
  C3, amended. Whenever \<open>Save\<close> returns nil on a non-empty record, the object has been
  released to the pool: its request context and store reference are nil, its identifier
  is the empty string, its record is empty, its freshness flag is true, and its address
  has been put into the pool.
\<close>

theorem Save_success_releases:
  assumes "sessions w p = Some s" and "db s = Some d" and "0 < db_Len d"
    and "Save ext p w = (Return None, w')"
  shows "sessions w' p = Some \<lparr>ctx = None, config = None, db = Some [], id_s = [], fresh = True\<rparr>
       \<and> sessionPool w' = p # sessionPool w"
  using assms
  by (auto simp: Save_def setCookie_def releaseSession_def sessionPool_Put_def db_Reset_def Let_def
      split: sum.splits option.splits prod.splits outcome.splits if_splits)

theorem Save_success_releases_witness:
  "fst (Save example_extern 0 example_world) = Return None
   \<and> sessions (snd (Save example_extern 0 example_world)) 0
       = Some \<lparr>ctx = None, config = None, db = Some [], id_s = [], fresh = True\<rparr>
   \<and> sessionPool (snd (Save example_extern 0 example_world)) = [0]"
proof -
  have a: "sessions example_world 0 = Some example_Session"
    by (simp add: example_world_def)
  have b: "db example_Session = Some [(''user'', 7)]"
    by (simp add: example_Session_def)
  have c: "0 < db_Len [(''user'', 7 :: nat)]"
    by (simp add: db_Len_def)
  have r: "fst (Save example_extern 0 example_world) = Return None"
    by (simp add: Save_example)
  then have e: "Save example_extern 0 example_world
                  = (Return None, snd (Save example_extern 0 example_world))"
    by (metis prod.collapse)
  have "sessionPool example_world = []"
    by (simp add: example_world_def)
  with Save_success_releases [OF a b c e] r show ?thesis
    by simp
qed

subsection \<open>Regenerate\<close>

text \<open>
  C4. \<open>Regenerate\<close> first deletes the entry of the current identifier from the backend.
  When that fails, it returns the error and the object keeps its identifier (only the
  backend state is what the backend left). When it succeeds, the identifier becomes the
  one drawn from the configured key generator and the result is nil.
\<close>

theorem Regenerate_rotates_or_fails:
  assumes "sessions w p = Some s" and "config s = Some cfg"
    and "Storage_Delete (Storage cfg) (id_s s) (backend w) = (err, st)"
  shows "(err = Some e \<longrightarrow>
            Regenerate p w = (Return (Some e), w\<lparr>backend := st\<rparr>)
          \<and> ID p (snd (Regenerate p w)) = Return (id_s s))
       \<and> (err = None \<longrightarrow>
            Regenerate p w =
              (Return None,
               w\<lparr>backend := st, entropy := snd (KeyGenerator cfg (entropy w)),
                 sessions := (sessions w)(p \<mapsto> s\<lparr>id_s := fst (KeyGenerator cfg (entropy w))\<rparr>)\<rparr>)
          \<and> ID p (snd (Regenerate p w)) = Return (fst (KeyGenerator cfg (entropy w))))"
  using assms
  by (auto simp: Regenerate_def ID_def Let_def split: prod.splits)

theorem Regenerate_rotates_or_fails_witness:
  "Regenerate 0 (world_with offline_Session)
     = (Return (Some (Error ''delete failed'')), world_with offline_Session)
   \<and> ID 0 (snd (Regenerate 0 (world_with offline_Session))) = Return ''abc''
   \<and> Regenerate 0 example_world
     = (Return None,
        example_world\<lparr>backend := [], entropy := 3,
                      sessions := [0 \<mapsto> example_Session\<lparr>id_s := ''key-xx''\<rparr>]\<rparr>)
   \<and> ID 0 (snd (Regenerate 0 example_world)) = Return ''key-xx''"
proof -
  have a: "sessions (world_with offline_Session) 0 = Some offline_Session"
    by (simp add: world_with_def)
  have b: "config offline_Session = Some (example_Store\<lparr>Storage := failing_Storage\<rparr>)"
    by (simp add: offline_Session_def example_Session_def)
  have c: "Storage_Delete (Storage (example_Store\<lparr>Storage := failing_Storage\<rparr>))
             (id_s offline_Session) (backend (world_with offline_Session))
           = (Some (Error ''delete failed''), backend (world_with offline_Session))"
    by (simp add: failing_Storage_def)
  have a': "sessions example_world 0 = Some example_Session"
    by (simp add: example_world_def)
  have b': "config example_Session = Some example_Store"
    by (simp add: example_Session_def)
  have c': "Storage_Delete (Storage example_Store) (id_s example_Session) (backend example_world)
            = (None, [])"
    by (simp add: example_defs)
  have k: "KeyGenerator example_Store (entropy example_world) = (''key-xx'', 3)"
    by (simp add: example_defs numeral_2_eq_2)
  have i: "id_s offline_Session = ''abc''"
    by (simp add: offline_Session_def example_Session_def)
  from Regenerate_rotates_or_fails [OF a b c, where e = "Error ''delete failed''"]
       Regenerate_rotates_or_fails [OF a' b' c'] k i
  show ?thesis
    by (simp add: ID_def example_world_def world_with_def)
qed

subsection \<open>Destroy\<close>

text \<open>
  C5. \<open>Destroy\<close> resets the record of the object first, so the record is empty afterwards
  whatever happens next. When the backend \<open>Delete\<close> of the identifier fails, \<open>Destroy\<close>
  returns that error and the request contexts are untouched: no revocation cookie is
  emitted. When the \<open>Delete\<close> succeeds, \<open>delCookie\<close> runs, the response holds a cookie
  of the configured name with maxAge \<open>-1\<close>, and the result is nil.
\<close>

theorem Destroy_resets_then_deletes:
  assumes "sessions w p = Some s" and "db s = Some d"
  shows "sessions (snd (Destroy p w)) p = Some (s\<lparr>db := Some []\<rparr>)
       \<and> (config s = Some cfg
            \<and> Storage_Delete (Storage cfg) (id_s s) (backend w) = (Some e, st)
          \<longrightarrow> Destroy p w
                = (Return (Some e),
                   w\<lparr>sessions := (sessions w)(p \<mapsto> s\<lparr>db := Some []\<rparr>), backend := st\<rparr>)
              \<and> ctxs (snd (Destroy p w)) = ctxs w)
       \<and> (config s = Some cfg
            \<and> Storage_Delete (Storage cfg) (id_s s) (backend w) = (None, st)
            \<and> ctx s = Some c \<and> ctxs w c = Some cx
          \<longrightarrow> fst (Destroy p w) = Return None
              \<and> delCookie p (w\<lparr>sessions := (sessions w)(p \<mapsto> s\<lparr>db := Some []\<rparr>), backend := st\<rparr>)
                  = (Return (), snd (Destroy p w))
              \<and> (\<exists>cx'. ctxs (snd (Destroy p w)) c = Some cx'
                    \<and> (\<exists>k \<in> set (Response_cookies cx').
                          ckey k = CookieName cfg \<and> cmaxAge k = - 1)))"
proof (intro conjI impI)
  show "sessions (snd (Destroy p w)) p = Some (s\<lparr>db := Some []\<rparr>)"
    using assms
    by (auto simp: Destroy_def delCookie_def db_Reset_def Let_def
        split: option.splits prod.splits outcome.splits)
next
  assume "config s = Some cfg \<and> Storage_Delete (Storage cfg) (id_s s) (backend w) = (Some e, st)"
  with assms show "Destroy p w
      = (Return (Some e), w\<lparr>sessions := (sessions w)(p \<mapsto> s\<lparr>db := Some []\<rparr>), backend := st\<rparr>)"
    by (simp add: Destroy_def db_Reset_def)
  then show "ctxs (snd (Destroy p w)) = ctxs w"
    by simp
next
  assume h: "config s = Some cfg \<and> Storage_Delete (Storage cfg) (id_s s) (backend w) = (None, st)
             \<and> ctx s = Some c \<and> ctxs w c = Some cx"
  let ?w2 = "w\<lparr>sessions := (sessions w)(p \<mapsto> s\<lparr>db := Some []\<rparr>), backend := st\<rparr>"
  have res: "delCookie p ?w2 = (Return (), ?w2\<lparr>ctxs := (ctxs ?w2)(c \<mapsto>
          \<lparr>Request_cookies = filter (\<lambda>kv. fst kv \<noteq> CookieName cfg) (Request_cookies cx),
           Response_cookies =
             filter (\<lambda>k. ckey k \<noteq> CookieName cfg) (Response_cookies cx) @
             [\<lparr>ckey = CookieName cfg, cvalue = [], cpath = CookiePath cfg,
               cdomain = CookieDomain cfg, cmaxAge = - 1,
               cexpire = Some (now ?w2 - 60000000000),
               csecure = CookieSecure cfg, chttpOnly = CookieHTTPOnly cfg,
               csameSite =
                 (if ToLower (CookieSameSite cfg) = ''strict'' then CookieSameSiteStrictMode
                  else if ToLower (CookieSameSite cfg) = ''none'' then CookieSameSiteNoneMode
                  else CookieSameSiteLaxMode)\<rparr>]\<rparr>)\<rparr>)"
    by (rule delCookie_result [where s = "s\<lparr>db := Some []\<rparr>"]) (use h in simp_all)
  from assms h have d: "Destroy p w = (Return None, snd (delCookie p ?w2))"
    by (simp add: Destroy_def db_Reset_def res)
  from d show "fst (Destroy p w) = Return None"
    by simp
  from d res show "delCookie p ?w2 = (Return (), snd (Destroy p w))"
    by simp
  from d res show "\<exists>cx'. ctxs (snd (Destroy p w)) c = Some cx'
        \<and> (\<exists>k \<in> set (Response_cookies cx'). ckey k = CookieName cfg \<and> cmaxAge k = - 1)"
    by simp
qed

theorem Destroy_resets_then_deletes_witness:
  "sessions (snd (Destroy 0 (world_with offline_Session))) 0 = Some (offline_Session\<lparr>db := Some []\<rparr>)
   \<and> Destroy 0 (world_with offline_Session)
       = (Return (Some (Error ''delete failed'')),
          world_with (offline_Session\<lparr>db := Some []\<rparr>))
   \<and> ctxs (snd (Destroy 0 (world_with offline_Session))) 0 = Some example_Ctx
   \<and> sessions (snd (Destroy 0 example_world)) 0 = Some (example_Session\<lparr>db := Some []\<rparr>)
   \<and> fst (Destroy 0 example_world) = Return None
   \<and> map_option Response_cookies (ctxs (snd (Destroy 0 example_world)) 0)
       = Some [other_Cookie,
               \<lparr>ckey = ''session_id'', cvalue = [], cpath = ''/app'',
                cdomain = ''example.org'', cmaxAge = - 1,
                cexpire = Some 940000000000, csecure = True, chttpOnly = True,
                csameSite = CookieSameSiteStrictMode\<rparr>]"
proof -
  have a: "sessions (world_with offline_Session) 0 = Some offline_Session"
    by (simp add: world_with_def)
  have b: "db offline_Session = Some [(''user'', 7)]"
    by (simp add: offline_Session_def example_Session_def)
  have c: "config offline_Session = Some (example_Store\<lparr>Storage := failing_Storage\<rparr>)
           \<and> Storage_Delete (Storage (example_Store\<lparr>Storage := failing_Storage\<rparr>))
               (id_s offline_Session) (backend (world_with offline_Session))
             = (Some (Error ''delete failed''), backend (world_with offline_Session))"
    by (simp add: offline_Session_def example_Session_def failing_Storage_def)
  have a': "sessions example_world 0 = Some example_Session"
    by (simp add: example_world_def)
  have b': "db example_Session = Some [(''user'', 7)]"
    by (simp add: example_Session_def)
  have c': "config example_Session = Some example_Store
            \<and> Storage_Delete (Storage example_Store) (id_s example_Session) (backend example_world)
              = (None, [])
            \<and> ctx example_Session = Some 0 \<and> ctxs example_world 0 = Some example_Ctx"
    by (simp add: example_defs)
  have 1: "sessions (snd (Destroy 0 (world_with offline_Session))) 0
             = Some (offline_Session\<lparr>db := Some []\<rparr>)
           \<and> Destroy 0 (world_with offline_Session)
             = (Return (Some (Error ''delete failed'')),
                (world_with offline_Session)
                  \<lparr>sessions := (sessions (world_with offline_Session))
                                (0 \<mapsto> offline_Session\<lparr>db := Some []\<rparr>),
                   backend := backend (world_with offline_Session)\<rparr>)
           \<and> ctxs (snd (Destroy 0 (world_with offline_Session))) = ctxs (world_with offline_Session)"
    using Destroy_resets_then_deletes [OF a b,
        where cfg = "example_Store\<lparr>Storage := failing_Storage\<rparr>"
          and e = "Error ''delete failed''" and st = "backend (world_with offline_Session)"] c
    by blast
  have 2: "sessions (snd (Destroy 0 example_world)) 0 = Some (example_Session\<lparr>db := Some []\<rparr>)
           \<and> fst (Destroy 0 example_world) = Return None"
    using Destroy_resets_then_deletes [OF a' b', where cfg = example_Store and st = "[]"
          and c = 0 and cx = example_Ctx] c'
    by blast
  have 3: "map_option Response_cookies (ctxs (snd (Destroy 0 example_world)) 0)
       = Some [other_Cookie,
               \<lparr>ckey = ''session_id'', cvalue = [], cpath = ''/app'',
                cdomain = ''example.org'', cmaxAge = - 1,
                cexpire = Some 940000000000, csecure = True, chttpOnly = True,
                csameSite = CookieSameSiteStrictMode\<rparr>]"
    by (simp add: Destroy_example)
  from 1 2 3 show ?thesis
    by (simp add: world_with_def example_world_def)
qed

subsection \<open>The freshness flag\<close>

text \<open>
  C6, as the specification states it: after a successful \<open>Destroy\<close> or a successful
  non-empty \<open>Save\<close>, \<open>Fresh\<close> returns false. On the example object, which is fresh, both calls succeed
  and \<open>Fresh\<close> still returns true afterwards.
\<close>

theorem Fresh_after_commit_counterexample:
  "Fresh 0 example_world = Return True
   \<and> fst (Destroy 0 example_world) = Return None
   \<and> Fresh 0 (snd (Destroy 0 example_world)) = Return True
   \<and> fst (Save example_extern 0 example_world) = Return None
   \<and> Fresh 0 (snd (Save example_extern 0 example_world)) = Return True"
  by (simp add: Destroy_example Save_example Fresh_def)
     (simp add: example_world_def example_Session_def)

text \<open>
  C6, amended. \<open>Fresh\<close> returns the freshness flag of the object. No method of the
  file sets the flag to false: after \<open>Set\<close>, \<open>Delete\<close>, \<open>Destroy\<close>,
  \<open>Regenerate\<close>, the two cookie functions and a \<open>Save\<close> that returns an error or
  finds the record empty the flag has the value it had before; after a successful
  \<open>Save\<close> of a non-empty record the object has been released and the flag is true;
  release and acquire set it to true. So any object whose flag is true still has a true
  flag after any sequence of calls of the functions of the file.
\<close>

theorem Fresh_reads_flag:
  assumes "sessions w p = Some s"
  shows "Fresh p w = Return (fresh s)
       \<and> (\<forall>r w'. Destroy p w = (Return r, w') \<longrightarrow> Fresh p w' = Return (fresh s))
       \<and> (\<forall>r w'. Regenerate p w = (Return r, w') \<longrightarrow> Fresh p w' = Return (fresh s))
       \<and> (\<forall>e w'. Save ext p w = (Return (Some e), w') \<longrightarrow> Fresh p w' = Return (fresh s))
       \<and> (\<forall>w'. Save ext p w = (Return None, w') \<longrightarrow>
            Fresh p w' = Return (fresh s \<or> (\<exists>d. db s = Some d \<and> 0 < db_Len d)))
       \<and> (\<forall>u w'. releaseSession p w = (Return u, w') \<longrightarrow> Fresh p w' = Return True)
       \<and> (\<forall>pick q w'. acquireSession pick w = (Return q, w') \<longrightarrow> Fresh q w' = Return True)
       \<and> (\<forall>k v u w'. Set p k v w = (Return u, w') \<longrightarrow> Fresh p w' = Return (fresh s))
       \<and> (\<forall>k u w'. Delete p k w = (Return u, w') \<longrightarrow> Fresh p w' = Return (fresh s))
       \<and> (\<forall>u w'. setCookie p w = (Return u, w') \<longrightarrow> Fresh p w' = Return (fresh s))
       \<and> (\<forall>u w'. delCookie p w = (Return u, w') \<longrightarrow> Fresh p w' = Return (fresh s))
       \<and> (\<forall>cs q t. sessions w q = Some t \<and> fresh t \<longrightarrow>
             Fresh q (run_calls ext cs w) = Return True)"
proof (intro conjI allI impI)
  show "Fresh p w = Return (fresh s)"
    using assms by (simp add: Fresh_def)
next
  fix r w' assume "Destroy p w = (Return r, w')"
  with assms show "Fresh p w' = Return (fresh s)"
    by (auto simp: Destroy_def delCookie_def Fresh_def Let_def
        split: option.splits prod.splits outcome.splits)
next
  fix r w' assume "Regenerate p w = (Return r, w')"
  with assms show "Fresh p w' = Return (fresh s)"
    by (auto simp: Regenerate_def Fresh_def Let_def split: option.splits prod.splits)
next
  fix e w' assume "Save ext p w = (Return (Some e), w')"
  with assms show "Fresh p w' = Return (fresh s)"
    by (auto simp: Save_def Fresh_def Let_def
        split: option.splits prod.splits outcome.splits sum.splits if_splits)
next
  fix w' assume "Save ext p w = (Return None, w')"
  with assms show "Fresh p w' = Return (fresh s \<or> (\<exists>d. db s = Some d \<and> 0 < db_Len d))"
    by (auto simp: Save_def setCookie_def releaseSession_def sessionPool_Put_def Fresh_def Let_def
        split: option.splits prod.splits outcome.splits sum.splits if_splits)
next
  fix u w' assume "releaseSession p w = (Return u, w')"
  with assms show "Fresh p w' = Return True"
    by (auto simp: releaseSession_def sessionPool_Put_def Fresh_def Let_def split: option.splits)
next
  fix pick q w' assume "acquireSession pick w = (Return q, w')"
  then show "Fresh q w' = Return True"
    by (auto simp: acquireSession_def Fresh_def Let_def split: option.splits prod.splits)
next
  fix k v u w' assume "Set p k v w = (Return u, w')"
  with assms show "Fresh p w' = Return (fresh s)"
    by (auto simp: Set_def Fresh_def split: option.splits)
next
  fix k u w' assume "Delete p k w = (Return u, w')"
  with assms show "Fresh p w' = Return (fresh s)"
    by (auto simp: Delete_def Fresh_def split: option.splits)
next
  fix u w' assume "setCookie p w = (Return u, w')"
  with assms show "Fresh p w' = Return (fresh s)"
    by (auto simp: setCookie_def Fresh_def Let_def split: option.splits)
next
  fix u w' assume "delCookie p w = (Return u, w')"
  with assms show "Fresh p w' = Return (fresh s)"
    by (auto simp: delCookie_def Fresh_def Let_def split: option.splits)
next
  fix cs q t assume "sessions w q = Some t \<and> fresh t"
  then obtain t' where "sessions (run_calls ext cs w) q = Some t'" "fresh t'"
    using fresh_kept_run_calls [of w q t ext cs] by blast
  then show "Fresh q (run_calls ext cs w) = Return True"
    by (simp add: Fresh_def)
qed

theorem Fresh_reads_flag_witness:
  "Fresh 0 example_world = Return True
   \<and> Fresh 0 (snd (Destroy 0 example_world)) = Return True
   \<and> Fresh 0 (snd (Regenerate 0 example_world)) = Return True
   \<and> Fresh 0 (snd (Save example_extern 0 (world_with offline_Session))) = Return True
   \<and> Fresh 0 (snd (Save example_extern 0 example_world)) = Return True
   \<and> Fresh 0 (snd (releaseSession 0 example_world)) = Return True
   \<and> Fresh 1 (snd (acquireSession None example_world)) = Return True
   \<and> Fresh 0 (snd (Set 0 ''user'' 8 example_world)) = Return True
   \<and> Fresh 0 (snd (Delete 0 ''user'' example_world)) = Return True
   \<and> Fresh 0 (snd (setCookie 0 example_world)) = Return True
   \<and> Fresh 0 (snd (delCookie 0 example_world)) = Return True
   \<and> Fresh 0 (run_calls example_extern
                 [Call_Set 0 ''role'' 3, Call_Regenerate 0, Call_Delete 0 ''user'', Call_Destroy 0]
                 example_world) = Return True"
proof -
  have a: "sessions example_world 0 = Some example_Session"
    by (simp add: example_world_def)
  have a': "sessions (world_with offline_Session) 0 = Some offline_Session"
    by (simp add: world_with_def)
  have f: "fresh example_Session" "fresh offline_Session"
    by (simp_all add: example_Session_def offline_Session_def)
  have d: "Destroy 0 example_world = (Return None, snd (Destroy 0 example_world))"
    by (simp add: Destroy_example)
  have r: "Regenerate 0 example_world = (Return None, snd (Regenerate 0 example_world))"
    by (simp add: Regenerate_def example_defs)
  have sf: "Save example_extern 0 (world_with offline_Session)
      = (Return (Some (Error ''set failed'')), snd (Save example_extern 0 (world_with offline_Session)))"
    by (simp add: Save_def example_defs db_Len_def)
  have sv: "Save example_extern 0 example_world
      = (Return None, snd (Save example_extern 0 example_world))"
    by (simp add: Save_example)
  have rl: "releaseSession 0 example_world = (Return (), snd (releaseSession 0 example_world))"
    by (simp add: releaseSession_def example_world_def Let_def)
  have ac: "acquireSession None example_world = (Return 1, snd (acquireSession None example_world))"
    by (simp add: acquireSession_def sessionPool_Get_def sessionPool_New_def example_world_def
        Let_def)
  have st: "Set 0 ''user'' 8 example_world = (Return (), snd (Set 0 ''user'' 8 example_world))"
    by (simp add: Set_def example_world_def example_Session_def)
  have dl: "Delete 0 ''user'' example_world = (Return (), snd (Delete 0 ''user'' example_world))"
    by (simp add: Delete_def example_world_def example_Session_def)
  have sc: "setCookie 0 example_world = (Return (), snd (setCookie 0 example_world))"
    by (simp add: setCookie_def example_world_def example_Session_def Let_def)
  have dc: "delCookie 0 example_world = (Return (), snd (delCookie 0 example_world))"
    by (simp add: delCookie_def example_world_def example_Session_def Let_def)
  note 1 = Fresh_reads_flag [OF a, where ext = example_extern]
  note 2 = Fresh_reads_flag [OF a', where ext = example_extern]
  have "Fresh 0 example_world = Return (fresh example_Session)"
    using 1 by (rule conjunct1)
  moreover have "Fresh 0 (snd (Destroy 0 example_world)) = Return (fresh example_Session)"
    using 1 [THEN conjunct2, THEN conjunct1, rule_format] d by blast
  moreover have "Fresh 0 (snd (Regenerate 0 example_world)) = Return (fresh example_Session)"
    using 1 [THEN conjunct2, THEN conjunct2, THEN conjunct1, rule_format] r by blast
  moreover have "Fresh 0 (snd (Save example_extern 0 (world_with offline_Session)))
      = Return (fresh offline_Session)"
    using 2 [THEN conjunct2, THEN conjunct2, THEN conjunct2, THEN conjunct1, rule_format] sf
    by blast
  moreover have "Fresh 0 (snd (Save example_extern 0 example_world))
      = Return (fresh example_Session \<or> (\<exists>d. db example_Session = Some d \<and> 0 < db_Len d))"
    using 1 [THEN conjunct2, THEN conjunct2, THEN conjunct2, THEN conjunct2, THEN conjunct1, rule_format] sv by blast
  moreover have "Fresh 0 (snd (releaseSession 0 example_world)) = Return True"
    using 1 [THEN conjunct2, THEN conjunct2, THEN conjunct2, THEN conjunct2, THEN conjunct2, THEN conjunct1, rule_format] rl by blast
  moreover have "Fresh 1 (snd (acquireSession None example_world)) = Return True"
    using 1 [THEN conjunct2, THEN conjunct2, THEN conjunct2, THEN conjunct2, THEN conjunct2, THEN conjunct2, THEN conjunct1, rule_format] ac by blast
  moreover have "Fresh 0 (snd (Set 0 ''user'' 8 example_world)) = Return (fresh example_Session)"
    using 1 [THEN conjunct2, THEN conjunct2, THEN conjunct2, THEN conjunct2, THEN conjunct2, THEN conjunct2, THEN conjunct2, THEN conjunct1, rule_format] st by blast
  moreover have "Fresh 0 (snd (Delete 0 ''user'' example_world)) = Return (fresh example_Session)"
    using 1 [THEN conjunct2, THEN conjunct2, THEN conjunct2, THEN conjunct2, THEN conjunct2, THEN conjunct2, THEN conjunct2, THEN conjunct2, THEN conjunct1, rule_format] dl by blast
  moreover have "Fresh 0 (snd (setCookie 0 example_world)) = Return (fresh example_Session)"
    using 1 [THEN conjunct2, THEN conjunct2, THEN conjunct2, THEN conjunct2, THEN conjunct2, THEN conjunct2, THEN conjunct2, THEN conjunct2, THEN conjunct2, THEN conjunct1, rule_format] sc by blast
  moreover have "Fresh 0 (snd (delCookie 0 example_world)) = Return (fresh example_Session)"
    using 1 [THEN conjunct2, THEN conjunct2, THEN conjunct2, THEN conjunct2, THEN conjunct2, THEN conjunct2, THEN conjunct2, THEN conjunct2, THEN conjunct2, THEN conjunct2, THEN conjunct1, rule_format] dc by blast
  moreover have "Fresh 0 (run_calls example_extern
                 [Call_Set 0 ''role'' 3, Call_Regenerate 0, Call_Delete 0 ''user'', Call_Destroy 0]
                 example_world) = Return True"
    using 1 [THEN conjunct2, THEN conjunct2, THEN conjunct2, THEN conjunct2, THEN conjunct2, THEN conjunct2, THEN conjunct2, THEN conjunct2, THEN conjunct2, THEN conjunct2, THEN conjunct2, rule_format] a f(1) by blast
  ultimately show ?thesis
    using f by simp
qed

subsection \<open>Release and acquire\<close>

text \<open>
  C7. \<open>releaseSession\<close> sets the request context and the store reference of the object
  to nil, its identifier to the empty string and its freshness flag to true, resets its
  record and puts the object into the pool. The pool then still holds only objects without
  context, store reference and identifier, and keeps doing so under any further calls of
  the functions of this file. So whatever \<open>sync.Pool\<close> chooses to hand out, the object
  returned by a later \<open>acquireSession\<close> has an empty record (\<open>Len() == 0\<close>), is
  fresh, and carries no identifier, store reference or context.
\<close>

theorem release_then_acquire:
  assumes "sessions w p = Some s" and "pool_released w"
  shows "\<exists>w'. releaseSession p w = (Return (), w')
           \<and> sessions w' p
               = Some \<lparr>ctx = None, config = None, db = map_option db_Reset (db s), id_s = [],
                       fresh = True\<rparr>
           \<and> sessionPool w' = p # sessionPool w
           \<and> pool_released w'
           \<and> (\<forall>ext cs pick. \<exists>q w'' s' d'.
                 acquireSession pick (run_calls ext cs w') = (Return q, w'')
                 \<and> sessions w'' q = Some s'
                 \<and> db s' = Some d' \<and> db_Len d' = 0 \<and> Fresh q w'' = Return True
                 \<and> ID q w'' = Return [] \<and> config s' = None \<and> ctx s' = None)"
proof -
  let ?w' = "snd (releaseSession p w)"
  have r: "releaseSession p w = (Return (), ?w')"
    using assms(1) by (simp add: releaseSession_def Let_def)
  have s': "sessions ?w' p
      = Some \<lparr>ctx = None, config = None, db = map_option db_Reset (db s), id_s = [], fresh = True\<rparr>"
    using assms(1)
    by (cases s) (simp add: releaseSession_def sessionPool_Put_def Let_def split: option.splits)
  have pl: "sessionPool ?w' = p # sessionPool w"
    using assms(1) by (simp add: releaseSession_def sessionPool_Put_def Let_def)
  have inv: "pool_released ?w'"
    using assms(2) by (rule pool_released_releaseSession)
  have acq: "\<exists>q w'' s' d'.
                 acquireSession pick (run_calls ext cs ?w') = (Return q, w'')
                 \<and> sessions w'' q = Some s'
                 \<and> db s' = Some d' \<and> db_Len d' = 0 \<and> Fresh q w'' = Return True
                 \<and> ID q w'' = Return [] \<and> config s' = None \<and> ctx s' = None"
    for pick cs and ext :: "'a extern"
    using acquireSession_clean [OF pool_released_run_calls [OF inv, of ext cs], of pick]
    by (auto simp: db_Len_def Fresh_def ID_def)
  from r s' pl inv acq show ?thesis
    by blast
qed

theorem release_then_acquire_witness:
  "pool_released example_world
   \<and> releaseSession 0 example_world = (Return (), snd (releaseSession 0 example_world))
   \<and> sessions (snd (releaseSession 0 example_world)) 0
       = Some \<lparr>ctx = None, config = None, db = Some [], id_s = [], fresh = True\<rparr>
   \<and> sessionPool (snd (releaseSession 0 example_world)) = [0]
   \<and> pool_released (snd (releaseSession 0 example_world))
   \<and> fst (acquireSession (Some 0)
           (run_calls example_extern [Call_Set 0 ''user'' 9] (snd (releaseSession 0 example_world))))
       = Return 0
   \<and> Fresh 0 (snd (acquireSession (Some 0)
           (run_calls example_extern [Call_Set 0 ''user'' 9] (snd (releaseSession 0 example_world)))))
       = Return True
   \<and> ID 0 (snd (acquireSession (Some 0)
           (run_calls example_extern [Call_Set 0 ''user'' 9] (snd (releaseSession 0 example_world)))))
       = Return []
   \<and> Get 0 ''user'' (snd (acquireSession (Some 0)
           (run_calls example_extern [Call_Set 0 ''user'' 9] (snd (releaseSession 0 example_world)))))
       = Return None"
proof -
  have a: "sessions example_world 0 = Some example_Session"
    by (simp add: example_world_def)
  have b: "pool_released example_world"
    by (simp add: pool_released_def example_world_def)
  from release_then_acquire [OF a b] obtain w' where
    r: "releaseSession 0 example_world = (Return (), w')"
    and s: "sessions w' 0 = Some \<lparr>ctx = None, config = None,
              db = map_option db_Reset (db example_Session), id_s = [], fresh = True\<rparr>"
    and pl: "sessionPool w' = 0 # sessionPool example_world"
    and inv: "pool_released w'"
    and acq: "\<And>(ext :: nat extern) cs pick. \<exists>q w'' s' d'.
                 acquireSession pick (run_calls ext cs w') = (Return q, w'')
                 \<and> sessions w'' q = Some s'
                 \<and> db s' = Some d' \<and> db_Len d' = 0 \<and> Fresh q w'' = Return True
                 \<and> ID q w'' = Return [] \<and> config s' = None \<and> ctx s' = None"
    by blast
  let ?v = "run_calls example_extern [Call_Set 0 ''user'' 9] w'"
  from r have w': "snd (releaseSession 0 example_world) = w'"
    by simp
  have q: "fst (acquireSession (Some 0) ?v) = Return 0"
    using s pl
    by (simp add: run_calls_def Set_def acquireSession_def sessionPool_Get_def example_Session_def)
  from acq [of "Some 0" example_extern "[Call_Set 0 ''user'' 9]"] q obtain w'' s' d' where
    "acquireSession (Some 0) ?v = (Return 0, w'')" "sessions w'' 0 = Some s'"
    "db s' = Some d'" "db_Len d' = 0" "Fresh 0 w'' = Return True" "ID 0 w'' = Return []"
    by auto
  then have "Fresh 0 (snd (acquireSession (Some 0) ?v)) = Return True"
    "ID 0 (snd (acquireSession (Some 0) ?v)) = Return []"
    "Get 0 ''user'' (snd (acquireSession (Some 0) ?v)) = Return None"
    by (simp_all add: Get_def db_Get_def db_Len_def)
  with b r s pl inv q w' show ?thesis
    by (simp add: example_Session_def example_world_def db_Reset_def)
qed

subsection \<open>The cookies emitted\<close>

text \<open>
  C8. When \<open>Destroy\<close> succeeds, the request no longer carries a cookie of the configured
  name, and the response carries exactly one cookie of that name: the revocation cookie,
  appended after the pending cookies of other names. It has the configured name, path and
  domain (the same ones \<open>setCookie\<close> puts on the cookie it issues for this object),
  maxAge \<open>-1\<close> and an expiry one minute before the current time.
\<close>

theorem Destroy_revocation_directive:
  assumes "sessions w p = Some s" and "db s = Some d" and "config s = Some cfg"
    and "ctx s = Some c" and "ctxs w c = Some cx"
    and "Storage_Delete (Storage cfg) (id_s s) (backend w) = (None, st)"
    and "revoke = \<lparr>ckey = CookieName cfg, cvalue = [], cpath = CookiePath cfg,
                   cdomain = CookieDomain cfg, cmaxAge = - 1,
                   cexpire = Some (now w - Minute),
                   csecure = CookieSecure cfg, chttpOnly = CookieHTTPOnly cfg,
                   csameSite =
                     (if ToLower (CookieSameSite cfg) = ''strict'' then CookieSameSiteStrictMode
                      else if ToLower (CookieSameSite cfg) = ''none'' then CookieSameSiteNoneMode
                      else CookieSameSiteLaxMode)\<rparr>"
  shows "\<exists>cx'. fst (Destroy p w) = Return None
           \<and> ctxs (snd (Destroy p w)) c = Some cx'
           \<and> Response_cookies cx'
               = filter (\<lambda>k. ckey k \<noteq> CookieName cfg) (Response_cookies cx) @ [revoke]
           \<and> Request_cookies cx'
               = filter (\<lambda>kv. fst kv \<noteq> CookieName cfg) (Request_cookies cx)
           \<and> CookieName cfg \<notin> fst ` set (Request_cookies cx')
           \<and> (\<forall>k \<in> set (Response_cookies cx'). ckey k = CookieName cfg \<longrightarrow> k = revoke)
           \<and> (\<forall>w2. setCookie p w = (Return (), w2) \<longrightarrow>
                 (\<exists>cx2 issue. ctxs w2 c = Some cx2 \<and> issue \<in> set (Response_cookies cx2)
                    \<and> cvalue issue = id_s s \<and> ckey issue = ckey revoke
                    \<and> cpath issue = cpath revoke \<and> cdomain issue = cdomain revoke))"
proof -
  let ?w2 = "w\<lparr>sessions := (sessions w)(p \<mapsto> s\<lparr>db := Some []\<rparr>), backend := st\<rparr>"
  let ?cx' = "\<lparr>Request_cookies = filter (\<lambda>kv. fst kv \<noteq> CookieName cfg) (Request_cookies cx),
               Response_cookies =
                 filter (\<lambda>k. ckey k \<noteq> CookieName cfg) (Response_cookies cx) @ [revoke]\<rparr>"
  have res: "delCookie p ?w2 = (Return (), ?w2\<lparr>ctxs := (ctxs ?w2)(c \<mapsto> ?cx')\<rparr>)"
    unfolding assms(7)
    by (subst delCookie_result [where s = "s\<lparr>db := Some []\<rparr>" and cfg = cfg and c = c and cx = cx])
       (use assms in \<open>simp_all add: Minute_def Second_def\<close>)
  from assms(1-6) have d: "Destroy p w = (Return None, ?w2\<lparr>ctxs := (ctxs ?w2)(c \<mapsto> ?cx')\<rparr>)"
    by (simp add: Destroy_def db_Reset_def res)
  have iss: "\<exists>cx2 issue. ctxs w2 c = Some cx2 \<and> issue \<in> set (Response_cookies cx2)
                    \<and> cvalue issue = id_s s \<and> ckey issue = ckey revoke
                    \<and> cpath issue = cpath revoke \<and> cdomain issue = cdomain revoke"
    if sc: "setCookie p w = (Return (), w2)" for w2
  proof -
    define issue where "issue =
       \<lparr>ckey = CookieName cfg, cvalue = id_s s, cpath = CookiePath cfg,
        cdomain = CookieDomain cfg, cmaxAge = int_of_float64 (Seconds (Expiration cfg)),
        cexpire = Some (now w + Expiration cfg),
        csecure = CookieSecure cfg, chttpOnly = CookieHTTPOnly cfg,
        csameSite =
          (if ToLower (CookieSameSite cfg) = ''strict'' then CookieSameSiteStrictMode
           else if ToLower (CookieSameSite cfg) = ''none'' then CookieSameSiteNoneMode
           else CookieSameSiteLaxMode)\<rparr>"
    let ?cx2 = "cx\<lparr>Response_cookies := Response_SetCookie issue (Response_cookies cx)\<rparr>"
    from sc setCookie_result [OF assms(1,3,4,5)]
    have "ctxs w2 c = Some ?cx2"
      by (auto simp: issue_def)
    moreover have "issue \<in> set (Response_cookies ?cx2)"
      by (simp add: Response_SetCookie_mem)
    moreover have "cvalue issue = id_s s \<and> ckey issue = ckey revoke
        \<and> cpath issue = cpath revoke \<and> cdomain issue = cdomain revoke"
      by (simp add: issue_def assms(7))
    ultimately show ?thesis
      by blast
  qed
  from d iss show ?thesis
    by (auto simp: assms(7))
qed

theorem Destroy_revocation_directive_witness:
  "fst (Destroy 0 example_world) = Return None
   \<and> ctxs (snd (Destroy 0 example_world)) 0
       = Some \<lparr>Request_cookies = [(''lang'', ''en'')],
               Response_cookies =
                 [other_Cookie,
                  \<lparr>ckey = ''session_id'', cvalue = [], cpath = ''/app'',
                   cdomain = ''example.org'', cmaxAge = - 1,
                   cexpire = Some 940000000000, csecure = True, chttpOnly = True,
                   csameSite = CookieSameSiteStrictMode\<rparr>]\<rparr>"
proof -
  define revoke where "revoke =
     \<lparr>ckey = CookieName example_Store, cvalue = [], cpath = CookiePath example_Store,
      cdomain = CookieDomain example_Store, cmaxAge = - 1,
      cexpire = Some (now example_world - Minute),
      csecure = CookieSecure example_Store, chttpOnly = CookieHTTPOnly example_Store,
      csameSite =
        (if ToLower (CookieSameSite example_Store) = ''strict'' then CookieSameSiteStrictMode
         else if ToLower (CookieSameSite example_Store) = ''none'' then CookieSameSiteNoneMode
         else CookieSameSiteLaxMode)\<rparr>"
  have a: "sessions example_world 0 = Some example_Session"
    by (simp add: example_world_def)
  have b: "db example_Session = Some [(''user'', 7)]"
    and c: "config example_Session = Some example_Store"
    and d: "ctx example_Session = Some 0"
    by (simp_all add: example_Session_def)
  have e: "ctxs example_world 0 = Some example_Ctx"
    by (simp add: example_world_def)
  have f: "Storage_Delete (Storage example_Store) (id_s example_Session) (backend example_world)
             = (None, [])"
    by (simp add: example_defs)
  have v: "revoke = \<lparr>ckey = ''session_id'', cvalue = [], cpath = ''/app'',
                   cdomain = ''example.org'', cmaxAge = - 1,
                   cexpire = Some 940000000000, csecure = True, chttpOnly = True,
                   csameSite = CookieSameSiteStrictMode\<rparr>"
    by (simp add: revoke_def example_Store_def example_world_def ToLower_Strict Minute_def
        Second_def)
  from Destroy_revocation_directive [OF a b c d e f revoke_def]
  obtain cx' where "fst (Destroy 0 example_world) = Return None"
    and "ctxs (snd (Destroy 0 example_world)) 0 = Some cx'"
    and "Response_cookies cx'
           = filter (\<lambda>k. ckey k \<noteq> CookieName example_Store) (Response_cookies example_Ctx)
             @ [revoke]"
    and "Request_cookies cx'
           = filter (\<lambda>kv. fst kv \<noteq> CookieName example_Store) (Request_cookies example_Ctx)"
    by blast
  then show ?thesis
    unfolding v
    by (cases cx') (simp add: example_Store_def example_Ctx_def stale_Cookie_def other_Cookie_def)
qed

text \<open>
  C9, as the specification states it: the maxAge of the issued cookie is the configured
  expiration in whole seconds. \<open>setCookie\<close> computes it as
  \<open>int(Expiration.Seconds())\<close>, in float64. For an expiration of 16777216.999999999
  seconds the sum \<open>16777216 + 0.999999999\<close> has no float64 of its own: near
  \<open>2 ^ 24\<close> the float64 numbers are \<open>2 ^ -28\<close> (about \<open>3.7e-9\<close>) apart, the sum is
  \<open>1e-9\<close> below 16777217 and further from the float64 below it, so it is rounded to
  16777217. The issued cookie has maxAge 16777217, one more than the whole seconds of the
  expiration.
\<close>

theorem Save_maxAge_rounds_up_counterexample:
  "fst (Save example_extern 0 (world_with (session_expiring 16777216999999999))) = Return None
   \<and> map_option (map cmaxAge \<circ> Response_cookies)
         (ctxs (snd (Save example_extern 0 (world_with (session_expiring 16777216999999999)))) 0)
       = Some [16777217, 0]
   \<and> (16777216999999999 :: int) div Second = 16777216
   \<and> quo 16777216999999999 Second = 16777216"
  by (simp add: Save_def setCookie_def releaseSession_def sessionPool_Put_def session_expiring_def
      example_defs db_Len_def db_Reset_def ToLower_Strict Second_def Time_Add_def cookie_setters
      Seconds_rounds_up quo_def)

text \<open>
  C9, amended. When \<open>Save\<close> succeeds on a non-empty record, the response receives the
  cookie \<open>issue\<close>: its value is the session identifier, its name, path, domain, secure
  and httpOnly attributes are the configured ones, its maxAge is
  \<open>int(Expiration.Seconds())\<close>, which is the configured expiration in seconds whenever
  that expiration is a whole number of seconds, its expiry is the current time plus the
  expiration, and its sameSite mode is Strict or None exactly when the configured value
  matches \<open>strict\<close> or \<open>none\<close> ignoring case, and Lax for every other value.
\<close>

theorem Save_issue_directive:
  assumes "sessions w p = Some s" and "db s = Some d" and "0 < db_Len d"
    and "MarshalMsg ext d = Inr data" and "config s = Some cfg"
    and "Storage_Set (Storage cfg) (id_s s) data (Expiration cfg) (backend w) = (None, st)"
    and "ctx s = Some c" and "ctxs w c = Some cx"
    and "issue = \<lparr>ckey = CookieName cfg, cvalue = id_s s, cpath = CookiePath cfg,
                  cdomain = CookieDomain cfg, cmaxAge = int_of_float64 (Seconds (Expiration cfg)),
                  cexpire = Some (now w + Expiration cfg),
                  csecure = CookieSecure cfg, chttpOnly = CookieHTTPOnly cfg,
                  csameSite =
                    (if ToLower (CookieSameSite cfg) = ''strict'' then CookieSameSiteStrictMode
                     else if ToLower (CookieSameSite cfg) = ''none'' then CookieSameSiteNoneMode
                     else CookieSameSiteLaxMode)\<rparr>"
  shows "fst (Save ext p w) = Return None
       \<and> backend (snd (Save ext p w)) = st
       \<and> ctxs (snd (Save ext p w)) c
           = Some (cx\<lparr>Response_cookies := Response_SetCookie issue (Response_cookies cx)\<rparr>)
       \<and> issue \<in> set (Response_SetCookie issue (Response_cookies cx))
       \<and> (Expiration cfg mod Second = 0 \<and> - (2 ^ 63) \<le> Expiration cfg \<and> Expiration cfg < 2 ^ 63
            \<longrightarrow> cmaxAge issue = Expiration cfg div Second)
       \<and> (csameSite issue = CookieSameSiteStrictMode
            \<longleftrightarrow> matches_ignoring_case (CookieSameSite cfg) ''strict'')
       \<and> (csameSite issue = CookieSameSiteNoneMode
            \<longleftrightarrow> matches_ignoring_case (CookieSameSite cfg) ''none'')
       \<and> (csameSite issue = CookieSameSiteLaxMode
            \<longleftrightarrow> \<not> matches_ignoring_case (CookieSameSite cfg) ''strict''
                \<and> \<not> matches_ignoring_case (CookieSameSite cfg) ''none'')"
proof -
  let ?w1 = "w\<lparr>backend := st\<rparr>"
  let ?cx' = "cx\<lparr>Response_cookies := Response_SetCookie issue (Response_cookies cx)\<rparr>"
  have sc: "setCookie p ?w1 = (Return (), ?w1\<lparr>ctxs := (ctxs ?w1)(c \<mapsto> ?cx')\<rparr>)"
    unfolding assms(9)
    by (subst setCookie_result [where s = s and cfg = cfg and c = c and cx = cx])
       (use assms in simp_all)
  have rl: "releaseSession p (?w1\<lparr>ctxs := (ctxs ?w1)(c \<mapsto> ?cx')\<rparr>)
      = (Return (), snd (releaseSession p (?w1\<lparr>ctxs := (ctxs ?w1)(c \<mapsto> ?cx')\<rparr>)))"
    using assms(1) by (simp add: releaseSession_def Let_def)
  have cx: "ctxs (snd (releaseSession p (?w1\<lparr>ctxs := (ctxs ?w1)(c \<mapsto> ?cx')\<rparr>))) c = Some ?cx'"
    and bk: "backend (snd (releaseSession p (?w1\<lparr>ctxs := (ctxs ?w1)(c \<mapsto> ?cx')\<rparr>))) = st"
    using assms(1) by (simp_all add: releaseSession_def sessionPool_Put_def Let_def)
  from assms(1-8) have sv: "Save ext p w
      = (Return None, snd (releaseSession p (?w1\<lparr>ctxs := (ctxs ?w1)(c \<mapsto> ?cx')\<rparr>)))"
    by (simp add: Save_def sc) (simp add: releaseSession_def Let_def)
  have m: "issue \<in> set (Response_SetCookie issue (Response_cookies cx))"
    by (rule Response_SetCookie_mem)
  have ci: "ToLower (CookieSameSite cfg) = ''strict''
              \<longleftrightarrow> matches_ignoring_case (CookieSameSite cfg) ''strict''"
    "ToLower (CookieSameSite cfg) = ''none''
              \<longleftrightarrow> matches_ignoring_case (CookieSameSite cfg) ''none''"
    by (simp_all add: ToLower_eq_iff lower_letters_strict_none)
  have ws: "cmaxAge issue = Expiration cfg div Second"
    if "Expiration cfg mod Second = 0 \<and> - (2 ^ 63) \<le> Expiration cfg \<and> Expiration cfg < 2 ^ 63"
    using that Seconds_whole_int64 [of "Expiration cfg"] by (simp add: assms(9))
  from sv cx bk m ws show ?thesis
    unfolding ci [symmetric] by (simp add: assms(9))
qed

theorem Save_issue_directive_witness:
  "fst (Save example_extern 0 (world_with (session_sameSite ''STRICT''))) = Return None
   \<and> ctxs (snd (Save example_extern 0 (world_with (session_sameSite ''STRICT'')))) 0
       = Some \<lparr>Request_cookies = [(''session_id'', ''abc''), (''lang'', ''en'')],
               Response_cookies =
                 [\<lparr>ckey = ''session_id'', cvalue = ''abc'', cpath = ''/app'',
                   cdomain = ''example.org'', cmaxAge = 86400,
                   cexpire = Some 87400000000000, csecure = True, chttpOnly = True,
                   csameSite = CookieSameSiteStrictMode\<rparr>, other_Cookie]\<rparr>
   \<and> map_option (map csameSite \<circ> Response_cookies)
         (ctxs (snd (Save example_extern 0 (world_with (session_sameSite ''NoNe'')))) 0)
       = Some [CookieSameSiteNoneMode, CookieSameSiteDisabled]
   \<and> map_option (map csameSite \<circ> Response_cookies)
         (ctxs (snd (Save example_extern 0 (world_with (session_sameSite ''Lax'')))) 0)
       = Some [CookieSameSiteLaxMode, CookieSameSiteDisabled]
   \<and> map_option (map csameSite \<circ> Response_cookies)
         (ctxs (snd (Save example_extern 0 (world_with (session_sameSite ''bogus'')))) 0)
       = Some [CookieSameSiteLaxMode, CookieSameSiteDisabled]
   \<and> map_option (map csameSite \<circ> Response_cookies)
         (ctxs (snd (Save example_extern 0 (world_with (session_sameSite [])))) 0)
       = Some [CookieSameSiteLaxMode, CookieSameSiteDisabled]"
proof -
  have gen: "fst (Save example_extern 0 (world_with (session_sameSite x))) = Return None
     \<and> ctxs (snd (Save example_extern 0 (world_with (session_sameSite x)))) 0
       = Some \<lparr>Request_cookies = [(''session_id'', ''abc''), (''lang'', ''en'')],
               Response_cookies =
                 [\<lparr>ckey = ''session_id'', cvalue = ''abc'', cpath = ''/app'',
                   cdomain = ''example.org'', cmaxAge = 86400,
                   cexpire = Some 87400000000000, csecure = True, chttpOnly = True,
                   csameSite =
                     (if ToLower x = ''strict'' then CookieSameSiteStrictMode
                      else if ToLower x = ''none'' then CookieSameSiteNoneMode
                      else CookieSameSiteLaxMode)\<rparr>, other_Cookie]\<rparr>" for x
  proof -
    let ?cfg = "example_Store\<lparr>CookieSameSite := x\<rparr>"
    let ?w = "world_with (session_sameSite x)"
    define issue where "issue =
       \<lparr>ckey = CookieName ?cfg, cvalue = id_s (session_sameSite x), cpath = CookiePath ?cfg,
        cdomain = CookieDomain ?cfg, cmaxAge = int_of_float64 (Seconds (Expiration ?cfg)),
        cexpire = Some (now ?w + Expiration ?cfg),
        csecure = CookieSecure ?cfg, chttpOnly = CookieHTTPOnly ?cfg,
        csameSite =
          (if ToLower (CookieSameSite ?cfg) = ''strict'' then CookieSameSiteStrictMode
           else if ToLower (CookieSameSite ?cfg) = ''none'' then CookieSameSiteNoneMode
           else CookieSameSiteLaxMode)\<rparr>"
    have a: "sessions ?w 0 = Some (session_sameSite x)"
      by (simp add: world_with_def)
    have b: "db (session_sameSite x) = Some [(''user'', 7)]"
      and e: "config (session_sameSite x) = Some ?cfg"
      and g: "ctx (session_sameSite x) = Some 0"
      by (simp_all add: session_sameSite_def example_Session_def)
    have c: "0 < db_Len [(''user'', 7 :: nat)]"
      by (simp add: db_Len_def)
    have m: "MarshalMsg example_extern [(''user'', 7)] = Inr [7]"
      by (simp add: example_extern_def)
    have f: "Storage_Set (Storage ?cfg) (id_s (session_sameSite x)) [7] (Expiration ?cfg)
               (backend ?w) = (None, [(''abc'', [7])])"
      by (simp add: session_sameSite_def example_defs)
    have h: "ctxs ?w 0 = Some example_Ctx"
      by (simp add: world_with_def example_world_def)
    note t = Save_issue_directive [OF a b c m e f g h issue_def]
    have wh: "Expiration ?cfg mod Second = 0 \<and> - (2 ^ 63) \<le> Expiration ?cfg
              \<and> Expiration ?cfg < 2 ^ 63"
      by (simp add: example_Store_def Second_def)
    from t wh have "cmaxAge issue = Expiration ?cfg div Second"
      by blast
    then have ws: "int_of_float64 (Seconds 86400000000000) = 86400"
      by (simp add: issue_def example_Store_def Second_def)
    have v: "issue = \<lparr>ckey = ''session_id'', cvalue = ''abc'', cpath = ''/app'',
                   cdomain = ''example.org'', cmaxAge = 86400,
                   cexpire = Some 87400000000000, csecure = True, chttpOnly = True,
                   csameSite =
                     (if ToLower x = ''strict'' then CookieSameSiteStrictMode
                      else if ToLower x = ''none'' then CookieSameSiteNoneMode
                      else CookieSameSiteLaxMode)\<rparr>"
      using ws by (simp add: issue_def session_sameSite_def example_defs Second_def)
    from t
    have "fst (Save example_extern 0 ?w) = Return None"
      and "ctxs (snd (Save example_extern 0 ?w)) 0
            = Some (example_Ctx\<lparr>Response_cookies :=
                      Response_SetCookie issue (Response_cookies example_Ctx)\<rparr>)"
      by blast+
    then show ?thesis
      unfolding v by (simp add: example_Ctx_def stale_Cookie_def)
  qed
  from gen [of "''STRICT''"] gen [of "''NoNe''"] gen [of "''Lax''"] gen [of "''bogus''"]
    gen [of "[]"]
  show ?thesis
    by (simp add: ToLower_examples other_Cookie_def)
qed

subsection \<open>What Regenerate leaves alone\<close>

text \<open>
  C10. A successful \<open>Regenerate\<close> changes, of the object, only the identifier: the
  record, the freshness flag, the store reference and the request context are as before,
  so \<open>Get\<close> returns the same value for every key. The other objects, the pool and the
  request contexts are unchanged as well.
\<close>

theorem Regenerate_frame:
  assumes "sessions w p = Some s" and "Regenerate p w = (Return None, w')"
  shows "(\<exists>k. sessions w' p = Some (s\<lparr>id_s := k\<rparr>))
       \<and> map_option db (sessions w' p) = Some (db s)
       \<and> map_option fresh (sessions w' p) = Some (fresh s)
       \<and> map_option config (sessions w' p) = Some (config s)
       \<and> map_option ctx (sessions w' p) = Some (ctx s)
       \<and> Get p key w' = Get p key w
       \<and> (\<forall>q. q \<noteq> p \<longrightarrow> sessions w' q = sessions w q)
       \<and> sessionPool w' = sessionPool w \<and> ctxs w' = ctxs w"
  using assms
  by (auto simp: Regenerate_def Get_def Let_def split: prod.splits option.splits)

theorem Regenerate_frame_witness:
  "fst (Regenerate 0 example_world) = Return None
   \<and> Get 0 ''user'' example_world = Return (Some 7)
   \<and> Get 0 ''user'' (snd (Regenerate 0 example_world)) = Return (Some 7)
   \<and> map_option db (sessions (snd (Regenerate 0 example_world)) 0) = Some (Some [(''user'', 7)])
   \<and> map_option fresh (sessions (snd (Regenerate 0 example_world)) 0) = Some True
   \<and> map_option config (sessions (snd (Regenerate 0 example_world)) 0) = Some (Some example_Store)
   \<and> map_option ctx (sessions (snd (Regenerate 0 example_world)) 0) = Some (Some 0)"
proof -
  have a: "sessions example_world 0 = Some example_Session"
    by (simp add: example_world_def)
  have r: "fst (Regenerate 0 example_world) = Return None"
    by (simp add: Regenerate_def example_defs)
  then have e: "Regenerate 0 example_world = (Return None, snd (Regenerate 0 example_world))"
    by (metis prod.collapse)
  have g: "Get 0 ''user'' example_world = Return (Some 7)"
    by (simp add: Get_def db_Get_def example_world_def example_Session_def)
  have f: "db example_Session = Some [(''user'', 7)] \<and> fresh example_Session
           \<and> config example_Session = Some example_Store \<and> ctx example_Session = Some 0"
    by (simp add: example_Session_def)
  from Regenerate_frame [OF a e, where key = "''user''"] r g f show ?thesis
    by simp
qed

end
